theory Spec2Isabelle
  imports Main
begin

section \<open>Values of the JavaScript runtime\<close>

text \<open>
  The program is one TypeScript file, \<^verbatim>\<open>src/index.ts\<close>, run by Deno. Its classes
  pass around plain JavaScript values: what \<^verbatim>\<open>JSON.parse\<close> returns is typed
  \<^verbatim>\<open>any\<close>, and \<^verbatim>\<open>ResponseInfo.fromJSON\<close> stores whatever it finds. The fields of
  a response are therefore values of \<open>jsval\<close>, not of the types the class declares.

  Numbers are the integers the program handles (status codes, epoch milliseconds); strings
  are \<open>string\<close>. An object is the list of its own properties in insertion order, its keys
  distinct.
\<close>

datatype jsval =
    JUndefined
  | JNull
  | JBool bool
  | JNum int
  | JStr string
  | JArr "jsval list"
  | JObj "(string \<times> jsval) list"

text \<open>
  What a \<^verbatim>\<open>throw\<close> or a rejected promise carries. \<open>NotFound\<close> is
  \<^verbatim>\<open>Deno.errors.NotFound\<close>, \<open>Deserialize\<close> is the program's own
  \<^verbatim>\<open>errors.Deserialize\<close> (line 12), \<open>IOFault\<close> any other failure of a file
  operation (permission denied, a directory in the way, a disk error), \<open>SyntaxError\<close> and
  \<open>TypeError\<close> the built-in classes, \<open>OtherError\<close> anything else (a transport failure).
\<close>

datatype js_error =
    NotFound
  | IOFault
  | SyntaxError
  | TypeError
  | Deserialize
  | OtherError string

text \<open>
  Reading a property, \<^verbatim>\<open>v.k\<close>. On \<^verbatim>\<open>undefined\<close> and \<^verbatim>\<open>null\<close> it throws a
  TypeError. On an object it is the own property or \<^verbatim>\<open>undefined\<close>. The program reads
  only \<^verbatim>\<open>res\<close>, \<^verbatim>\<open>status\<close>, \<^verbatim>\<open>headers\<close> and \<^verbatim>\<open>data\<close>, which no
  boolean, number, string or array has: there the read gives \<^verbatim>\<open>undefined\<close>.
\<close>

fun get_prop :: "jsval \<Rightarrow> string \<Rightarrow> js_error + jsval" where
  "get_prop JUndefined k = Inl TypeError"
| "get_prop JNull k = Inl TypeError"
| "get_prop (JObj kvs) k = Inr (case map_of kvs k of None \<Rightarrow> JUndefined | Some v \<Rightarrow> v)"
| "get_prop v k = Inr JUndefined"

text \<open>
  Writing a property, \<^verbatim>\<open>obj[k] = v\<close>: an existing key keeps its place, a new key goes
  last.
\<close>

fun set_prop :: "(string \<times> jsval) list \<Rightarrow> string \<Rightarrow> jsval \<Rightarrow> (string \<times> jsval) list" where
  "set_prop [] k v = [(k, v)]"
| "set_prop ((k', v') # kvs) k v =
     (if k' = k then (k, v) # kvs else (k', v') # set_prop kvs k v)"

text \<open>
  A \<^verbatim>\<open>Headers\<close> object is read only by iteration: it is the sequence of pairs the
  iterator yields. The loops of lines 42-45 and 79-82 copy it into a fresh object.
\<close>

type_synonym Headers = "(string \<times> string) list"

definition headers_record :: "Headers \<Rightarrow> jsval" where
  "headers_record hs = JObj (foldl (\<lambda>obj (k, v). set_prop obj k (JStr v)) [] hs)"

section \<open>The platform\<close>

text \<open>
  The functions the program imports or finds in the runtime, none of them code of the
  repository. They are parameters of the model, and a theorem assumes of them only what
  it states.
  \<^item> \<open>sha1_hex s\<close> is \<^verbatim>\<open>new Sha1().update(s).hex()\<close>;
  \<^item> \<open>JSON_stringify v space\<close> is \<^verbatim>\<open>JSON.stringify(v, null, space)\<close>, and
    \<^verbatim>\<open>JSON.stringify(v)\<close> when \<open>space\<close> is empty;
  \<^item> \<open>JSON_parse s\<close> is \<^verbatim>\<open>JSON.parse(s)\<close>, \<open>None\<close> when it throws its SyntaxError;
  \<^item> \<open>path_join\<close> is \<^verbatim>\<open>path.join\<close> of the standard library;
  \<^item> a URL object is its serialisation (\<^verbatim>\<open>url.toString()\<close>): \<open>URL_new s\<close> is
    \<^verbatim>\<open>new URL(s)\<close>, \<open>None\<close> when it throws its TypeError, \<open>URL_host u\<close> is
    \<^verbatim>\<open>u.host\<close>, and \<open>searchParams_get u k\<close> is \<^verbatim>\<open>u.searchParams.get(k)\<close>,
    \<open>None\<close> for \<^verbatim>\<open>null\<close>;
  \<^item> \<open>Response_new b st hs\<close> is what \<^verbatim>\<open>new Response(b, {status: st, headers: hs})\<close>
    throws, \<open>None\<close> when it constructs the response. The constructor of the Fetch
    standard throws for a status outside 200 to 599, for a body given together with a
    status that allows none (204, 205, 304), and for headers it cannot read.
\<close>

record runtime =
  sha1_hex :: "string \<Rightarrow> string"
  JSON_stringify :: "jsval \<Rightarrow> string \<Rightarrow> string"
  JSON_parse :: "string \<Rightarrow> jsval option"
  path_join :: "string list \<Rightarrow> string"
  URL_new :: "string \<Rightarrow> string option"
  URL_host :: "string \<Rightarrow> string"
  searchParams_get :: "string \<Rightarrow> string \<Rightarrow> string option"
  Response_new :: "jsval \<Rightarrow> jsval \<Rightarrow> jsval \<Rightarrow> js_error option"

text \<open>
  The file system, as far as the program touches it: the text files by path, the paths
  where reading fails for another reason than absence, and the paths where creating or
  writing a file fails (a path refuses both or neither). Directories are not modelled.
\<close>

record filesystem =
  files :: "string \<rightharpoonup> string"
  unreadable :: "string set"
  unwritable :: "string set"

definition readTextFile :: "filesystem \<Rightarrow> string \<Rightarrow> js_error + string" where
  "readTextFile fsys p =
     (if p \<in> unreadable fsys then Inl IOFault
      else case files fsys p of None \<Rightarrow> Inl NotFound | Some s \<Rightarrow> Inr s)"

definition writeTextFile :: "filesystem \<Rightarrow> string \<Rightarrow> string \<Rightarrow> js_error + filesystem" where
  "writeTextFile fsys p s =
     (if p \<in> unwritable fsys then Inl IOFault
      else Inr (fsys\<lparr>files := (files fsys)(p \<mapsto> s)\<rparr>))"

text \<open>
  \<^verbatim>\<open>ensureFile\<close> of the standard library: an existing file is left alone, a missing
  one is created empty.
\<close>

definition ensureFile :: "filesystem \<Rightarrow> string \<Rightarrow> js_error + filesystem" where
  "ensureFile fsys p =
     (case files fsys p of
        Some s \<Rightarrow> Inr fsys
      | None \<Rightarrow> writeTextFile fsys p [])"

text \<open>
  The state a call runs in: the file system, the lines written by \<^verbatim>\<open>console.log\<close>,
  the clock \<^verbatim>\<open>Date.now()\<close> reads, and the state of whatever the wrapped fetch talks
  to (the network and the origins behind it).
\<close>

record 'o world =
  fs :: filesystem
  console :: "string list"
  clock :: int
  origin :: 'o

definition console_log :: "string \<Rightarrow> 'o world \<Rightarrow> 'o world" where
  "console_log line w = w\<lparr>console := console w @ [line]\<rparr>"

section \<open>Models (lines 19-120)\<close>

text \<open>
  The two classes of the program. A URL object is kept as its serialisation. The field
  \<^verbatim>\<open>method\<close> of a request is \<open>http_method\<close> here and the field \<^verbatim>\<open>headers\<close> of a
  response is \<open>rheaders\<close>; the other fields keep their names.
\<close>

record RequestInfo =
  url :: string
  http_method :: string
  headers :: Headers
  body :: string

record ResponseInfo =
  status :: jsval
  rheaders :: jsval
  data :: jsval

text \<open>A transport \<^verbatim>\<open>Response\<close>: reading its body, \<^verbatim>\<open>res.text()\<close>, may fail.\<close>

record Response =
  resp_status :: int
  resp_headers :: Headers
  resp_text :: "js_error + string"

text \<open>\<^verbatim>\<open>RequestInfo.toJSON\<close>, lines 41-53.\<close>

definition RequestInfo_toJSON :: "RequestInfo \<Rightarrow> (string \<times> jsval) list" where
  "RequestInfo_toJSON req =
     [(''url'', JStr (url req)),
      (''method'', JStr (http_method req)),
      (''headers'', headers_record (headers req)),
      (''body'', JStr (body req))]"

text \<open>
  \<^verbatim>\<open>RequestInfo.hash\<close>, lines 58-62: the payload is the serialised request with its
  \<^verbatim>\<open>headers\<close> property overwritten by an empty object.
\<close>

definition hash_payload :: "RequestInfo \<Rightarrow> jsval" where
  "hash_payload req = JObj (set_prop (RequestInfo_toJSON req) ''headers'' (JObj []))"

definition hash :: "runtime \<Rightarrow> RequestInfo \<Rightarrow> string" where
  "hash rt req = sha1_hex rt (JSON_stringify rt (hash_payload req) [])"


text \<open>\<^verbatim>\<open>ResponseInfo.fromResponse\<close>, lines 74-85.\<close>

definition fromResponse :: "Response \<Rightarrow> js_error + ResponseInfo" where
  "fromResponse res =
     (let isSuccessful = (resp_status res = 200) in
      case (if isSuccessful then resp_text res else Inr []) of
        Inl e \<Rightarrow> Inl e
      | Inr d \<Rightarrow>
          Inr \<lparr>status = JNum (resp_status res),
               rheaders = headers_record (resp_headers res),
               data = JStr d\<rparr>)"

text \<open>The getter \<^verbatim>\<open>isSuccessful\<close>, lines 90-92.\<close>

definition isSuccessful :: "ResponseInfo \<Rightarrow> bool" where
  "isSuccessful r = (status r = JNum 200)"

text \<open>\<^verbatim>\<open>ResponseInfo.toJSON\<close>, lines 97-99.\<close>

definition ResponseInfo_toJSON :: "ResponseInfo \<Rightarrow> jsval" where
  "ResponseInfo_toJSON r =
     JObj [(''status'', status r), (''headers'', rheaders r), (''data'', data r)]"

text \<open>
  \<^verbatim>\<open>ResponseInfo.fromJSON\<close>, lines 104-110: the three property reads are the only
  thing in the \<^verbatim>\<open>try\<close> block that can throw, and whatever they throw is replaced by
  \<open>Deserialize\<close>.
\<close>

definition fromJSON :: "jsval \<Rightarrow> js_error + ResponseInfo" where
  "fromJSON json =
     (case get_prop json ''status'' of
        Inl e \<Rightarrow> Inl Deserialize
      | Inr s \<Rightarrow>
          (case get_prop json ''headers'' of
             Inl e \<Rightarrow> Inl Deserialize
           | Inr h \<Rightarrow>
               (case get_prop json ''data'' of
                  Inl e \<Rightarrow> Inl Deserialize
                | Inr d \<Rightarrow> Inr \<lparr>status = s, rheaders = h, data = d\<rparr>)))"

section \<open>Cache (lines 205-244)\<close>

text \<open>\<^verbatim>\<open>Cache.buildFilepath\<close>, lines 240-243.\<close>

definition buildFilepath :: "runtime \<Rightarrow> RequestInfo \<Rightarrow> string" where
  "buildFilepath rt req =
     path_join rt [''./tmp/cache'', URL_host rt (url req), hash rt req @ ''.json'']"

text \<open>The \<^verbatim>\<open>CachedItem\<close> that \<^verbatim>\<open>Cache.set\<close> builds, lines 214-218.\<close>

definition CachedItem :: "int \<Rightarrow> RequestInfo \<Rightarrow> ResponseInfo \<Rightarrow> jsval" where
  "CachedItem date req res =
     JObj [(''date'', JNum date),
           (''req'', JObj (RequestInfo_toJSON req)),
           (''res'', ResponseInfo_toJSON res)]"

text \<open>\<^verbatim>\<open>Cache.set\<close>, lines 206-221.\<close>

definition Cache_set ::
  "runtime \<Rightarrow> RequestInfo \<Rightarrow> ResponseInfo \<Rightarrow> 'o world \<Rightarrow> (js_error + unit) \<times> 'o world" where
  "Cache_set rt req res w =
     (if \<not> isSuccessful res then
        (Inr (), console_log ''Skip cache response because the call was not successful'' w)
      else
        let filepath = buildFilepath rt req in
        case ensureFile (fs w) filepath of
          Inl e \<Rightarrow> (Inl e, w)
        | Inr fs1 \<Rightarrow>
            let item = CachedItem (clock w) req res in
            (case writeTextFile fs1 filepath (JSON_stringify rt item ''  '') of
               Inl e \<Rightarrow> (Inl e, w\<lparr>fs := fs1\<rparr>)
             | Inr fs2 \<Rightarrow> (Inr (), console_log (''Cached '' @ filepath) (w\<lparr>fs := fs2\<rparr>))))"

text \<open>
  The \<^verbatim>\<open>try\<close> block of \<^verbatim>\<open>Cache.get\<close>, lines 227-230: read, parse, read the
  \<^verbatim>\<open>res\<close> property, deserialise. Each step can throw.
\<close>

definition Cache_get_try :: "runtime \<Rightarrow> filesystem \<Rightarrow> string \<Rightarrow> js_error + ResponseInfo" where
  "Cache_get_try rt fsys filepath =
     (case readTextFile fsys filepath of
        Inl e \<Rightarrow> Inl e
      | Inr resRaw \<Rightarrow>
          (case JSON_parse rt resRaw of
             None \<Rightarrow> Inl SyntaxError
           | Some res \<Rightarrow>
               (case get_prop res ''res'' of
                  Inl e \<Rightarrow> Inl e
                | Inr r \<Rightarrow> fromJSON r)))"

text \<open>
  \<^verbatim>\<open>Cache.get\<close>, lines 223-238, with the \<^verbatim>\<open>catch\<close> clause of lines 231-237:
  \<open>None\<close> is \<^verbatim>\<open>undefined\<close>.
\<close>

definition Cache_get ::
  "runtime \<Rightarrow> RequestInfo \<Rightarrow> 'o world \<Rightarrow> (js_error + ResponseInfo option) \<times> 'o world" where
  "Cache_get rt req w =
     (let filepath = buildFilepath rt req in
      case Cache_get_try rt (fs w) filepath of
        Inr d \<Rightarrow> (Inr (Some d), w)
      | Inl err \<Rightarrow>
          if err = NotFound \<or> err = Deserialize then (Inr None, w) else (Inl err, w))"

section \<open>The decorator (lines 126-143) and the fetcher (lines 192-199)\<close>

text \<open>
  The function that \<^verbatim>\<open>CachableRequest\<close> puts in place of the method it decorates.
  The decorated method works on the origin's state only.
\<close>

definition CachableRequest ::
  "runtime \<Rightarrow> (RequestInfo \<Rightarrow> 'o \<Rightarrow> (js_error + ResponseInfo) \<times> 'o) \<Rightarrow>
   RequestInfo \<Rightarrow> 'o world \<Rightarrow> (js_error + ResponseInfo) \<times> 'o world" where
  "CachableRequest rt meth req w =
     (case Cache_get rt req w of
        (Inl e, w1) \<Rightarrow> (Inl e, w1)
      | (Inr (Some fromCache), w1) \<Rightarrow>
          (Inr fromCache, console_log (''Cache hit '' @ http_method req @ '' '' @ url req) w1)
      | (Inr None, w1) \<Rightarrow>
          let w2 = console_log (''Cache miss '' @ http_method req @ '' '' @ url req) w1 in
          (case meth req (origin w2) of
             (Inl e, o') \<Rightarrow> (Inl e, w2\<lparr>origin := o'\<rparr>)
           | (Inr fromFetch, o') \<Rightarrow>
               (case Cache_set rt req fromFetch (w2\<lparr>origin := o'\<rparr>) of
                  (Inl e, w3) \<Rightarrow> (Inl e, w3)
                | (Inr u, w3) \<Rightarrow> (Inr fromFetch, w3))))"

text \<open>
  \<^verbatim>\<open>Fetcher.fetch\<close> as written, before decoration: \<open>net\<close> is the global
  \<^verbatim>\<open>fetch\<close>, called with the URL and the headers of the request.
\<close>

definition Fetcher_fetch ::
  "(string \<Rightarrow> Headers \<Rightarrow> 'o \<Rightarrow> (js_error + Response) \<times> 'o) \<Rightarrow>
   RequestInfo \<Rightarrow> 'o \<Rightarrow> (js_error + ResponseInfo) \<times> 'o" where
  "Fetcher_fetch net req og =
     (case net (url req) (headers req) og of
        (Inl e, og') \<Rightarrow> (Inl e, og')
      | (Inr res, og') \<Rightarrow> (fromResponse res, og'))"

definition cachedFetcher_fetch ::
  "runtime \<Rightarrow> (string \<Rightarrow> Headers \<Rightarrow> 'o \<Rightarrow> (js_error + Response) \<times> 'o) \<Rightarrow>
   RequestInfo \<Rightarrow> 'o world \<Rightarrow> (js_error + ResponseInfo) \<times> 'o world" where
  "cachedFetcher_fetch rt net = CachableRequest rt (Fetcher_fetch net)"

section \<open>Server (lines 149-186)\<close>

text \<open>
  An inbound request, and a response handed to \<^verbatim>\<open>respondWith\<close>: the body, the
  status and the headers given to the \<^verbatim>\<open>Response\<close> constructor (\<open>JUndefined\<close> where
  none is given). What \<^verbatim>\<open>respondWith\<close> does with the response is the runtime's and
  is not modelled.
\<close>

record HttpRequest =
  request_url :: string
  request_method :: string
  request_headers :: Headers
  request_text :: "js_error + string"

record Outbound =
  out_body :: jsval
  out_status :: jsval
  out_headers :: jsval

text \<open>\<^verbatim>\<open>RequestInfo.fromRequest\<close>, lines 33-36.\<close>

definition fromRequest :: "HttpRequest \<Rightarrow> string \<Rightarrow> js_error + RequestInfo" where
  "fromRequest req u =
     (case request_text req of
        Inl e \<Rightarrow> Inl e
      | Inr b \<Rightarrow>
          Inr \<lparr>url = u, http_method = request_method req, headers = request_headers req, body = b\<rparr>)"

definition not_found_response :: Outbound where
  "not_found_response = \<lparr>out_body = JStr [], out_status = JNum 404, out_headers = JUndefined\<rparr>"

text \<open>
  \<^verbatim>\<open>Server.serveHttp\<close>, lines 161-185, on the request events of one connection, in
  order. The result is the responses sent, how the method ended (\<open>Inr ()\<close> when it
  returned, \<open>Inl e\<close> when it threw), and the state it leaves. \<open>cachedFetch\<close> is
  \<^verbatim>\<open>this.cachedFetcher.fetch\<close>. The constructor of line 179 gets whatever the
  descriptor holds and may throw, before anything is sent; the one of line 168 gets an
  empty body and status 404, which it accepts.
\<close>

fun serveHttp ::
  "runtime \<Rightarrow> (RequestInfo \<Rightarrow> 'o world \<Rightarrow> (js_error + ResponseInfo) \<times> 'o world) \<Rightarrow>
   HttpRequest list \<Rightarrow> 'o world \<Rightarrow> (Outbound list \<times> (js_error + unit)) \<times> 'o world" where
  "serveHttp rt cachedFetch [] w = (([], Inr ()), w)"
| "serveHttp rt cachedFetch (requestEvent # rest) w =
     (case URL_new rt (request_url requestEvent) of
        None \<Rightarrow> (([], Inl TypeError), w)
      | Some u \<Rightarrow>
          (case searchParams_get rt u ''u'' of
             None \<Rightarrow> (([not_found_response], Inr ()), w)
           | Some reqURL \<Rightarrow>
               if reqURL = [] then (([not_found_response], Inr ()), w)
               else
                 (case URL_new rt reqURL of
                    None \<Rightarrow> (([], Inl TypeError), w)
                  | Some target \<Rightarrow>
                      (case fromRequest requestEvent target of
                         Inl e \<Rightarrow> (([], Inl e), w)
                       | Inr req \<Rightarrow>
                           (case cachedFetch req w of
                              (Inl e, w') \<Rightarrow> (([], Inl e), w')
                            | (Inr res, w') \<Rightarrow>
                                (case Response_new rt (data res) (status res) (rheaders res) of
                                   Some e \<Rightarrow> (([], Inl e), w')
                                 | None \<Rightarrow>
                                     (case serveHttp rt cachedFetch rest w' of
                                        ((outs, r), w'') \<Rightarrow>
                                          ((\<lparr>out_body = data res, out_status = status res,
                                             out_headers = rheaders res\<rparr> # outs, r),
                                           w''))))))))"

text \<open>
  The condition of line 166, \<^verbatim>\<open>!reqURL\<close>, on a request whose own URL parses: the
  parameter \<^verbatim>\<open>u\<close> is missing or empty.
\<close>

definition lacks_target :: "runtime \<Rightarrow> HttpRequest \<Rightarrow> bool" where
  "lacks_target rt requestEvent =
     (case URL_new rt (request_url requestEvent) of
        None \<Rightarrow> False
      | Some u \<Rightarrow>
          (case searchParams_get rt u ''u'' of None \<Rightarrow> True | Some reqURL \<Rightarrow> reqURL = []))"

section \<open>A runtime to evaluate the model on\<close>

text \<open>
  The theorems below hold for every runtime. To run the model on examples, this section
  gives one: a fragment of the real one, enough for the inputs used.
  \<^item> \<open>stringify\<close> and \<open>parse\<close> follow ECMAScript's \<^verbatim>\<open>JSON.stringify\<close> (with its
    \<open>gap\<close> and current indentation) and \<^verbatim>\<open>JSON.parse\<close> on integers, strings of
    characters below 256, arrays and objects; a number with a fraction or an exponent and
    an escape \<^verbatim>\<open>\u\<close> above \<^verbatim>\<open>00ff\<close> are outside the fragment and rejected.
  \<^item> \<open>checksum_hex\<close> stands in for SHA-1: no theorem depends on the digest's values.
  \<^item> \<open>posix_join\<close> joins and normalises relative paths.
  \<^item> \<open>plain_URL_new\<close>, \<open>plain_URL_host\<close> and \<open>plain_searchParams_get\<close> read URLs
    already in normal form, with scheme \<^verbatim>\<open>http\<close> and nothing percent-encoded.
  \<^item> \<open>plain_Response_new\<close> checks a status that is a number: its range, and that a
    status allowing no body comes with none. Headers are not checked.
\<close>

definition hex_digit :: "nat \<Rightarrow> char" where
  "hex_digit n = ''0123456789abcdef'' ! (n mod 16)"

fun decimal :: "nat \<Rightarrow> string" where
  "decimal n = (if n < 10 then [hex_digit n] else decimal (n div 10) @ [hex_digit (n mod 10)])"

definition show_int :: "int \<Rightarrow> string" where
  "show_int i = (if i < 0 then CHR ''-'' # decimal (nat (- i)) else decimal (nat i))"

definition quote_char :: "char \<Rightarrow> string" where
  "quote_char c =
     (if c = CHR 0x22 then [CHR 0x5C, CHR 0x22]
      else if c = CHR 0x5C then [CHR 0x5C, CHR 0x5C]
      else if c = CHR 0x08 then [CHR 0x5C, CHR ''b'']
      else if c = CHR 0x09 then [CHR 0x5C, CHR ''t'']
      else if c = CHR 0x0A then [CHR 0x5C, CHR ''n'']
      else if c = CHR 0x0C then [CHR 0x5C, CHR ''f'']
      else if c = CHR 0x0D then [CHR 0x5C, CHR ''r'']
      else if (of_char c :: nat) < 32 then
        [CHR 0x5C, CHR ''u'', CHR ''0'', CHR ''0'', hex_digit (of_char c div 16), hex_digit (of_char c)]
      else [c])"

definition quote :: "string \<Rightarrow> string" where
  "quote s = CHR 0x22 # concat (map quote_char s) @ [CHR 0x22]"

fun intercalate :: "string \<Rightarrow> string list \<Rightarrow> string" where
  "intercalate sep [] = []"
| "intercalate sep [x] = x"
| "intercalate sep (x # y # ys) = x @ sep @ intercalate sep (y # ys)"

fun stringify :: "string \<Rightarrow> string \<Rightarrow> jsval \<Rightarrow> string option"
  and stringify_elems :: "string \<Rightarrow> string \<Rightarrow> jsval list \<Rightarrow> string list"
  and stringify_members :: "string \<Rightarrow> string \<Rightarrow> (string \<times> jsval) list \<Rightarrow> string list" where
  "stringify gap ind JUndefined = None"
| "stringify gap ind JNull = Some ''null''"
| "stringify gap ind (JBool b) = Some (if b then ''true'' else ''false'')"
| "stringify gap ind (JNum i) = Some (show_int i)"
| "stringify gap ind (JStr s) = Some (quote s)"
| "stringify gap ind (JArr vs) =
     (let parts = stringify_elems gap (ind @ gap) vs in
      Some (if parts = [] then ''[]''
            else if gap = [] then ''['' @ intercalate '','' parts @ '']''
            else ''['' @ [CHR 0x0A] @ ind @ gap @
                 intercalate ('','' @ [CHR 0x0A] @ ind @ gap) parts @ [CHR 0x0A] @ ind @ '']''))"
| "stringify gap ind (JObj kvs) =
     (let parts = stringify_members gap (ind @ gap) kvs in
      Some (if parts = [] then ''{}''
            else if gap = [] then ''{'' @ intercalate '','' parts @ ''}''
            else ''{'' @ [CHR 0x0A] @ ind @ gap @
                 intercalate ('','' @ [CHR 0x0A] @ ind @ gap) parts @ [CHR 0x0A] @ ind @ ''}''))"
| "stringify_elems gap ind [] = []"
| "stringify_elems gap ind (v # vs) =
     (case stringify gap ind v of None \<Rightarrow> ''null'' | Some s \<Rightarrow> s) # stringify_elems gap ind vs"
| "stringify_members gap ind [] = []"
| "stringify_members gap ind ((k, v) # kvs) =
     (case stringify gap ind v of
        None \<Rightarrow> stringify_members gap ind kvs
      | Some s \<Rightarrow> (quote k @ (if gap = [] then '':'' else '': '') @ s) # stringify_members gap ind kvs)"

datatype tok = TLBrace | TRBrace | TLBrack | TRBrack | TColon | TComma | TVal jsval

definition is_ws :: "char \<Rightarrow> bool" where
  "is_ws c = (c = CHR 0x20 \<or> c = CHR 0x0A \<or> c = CHR 0x0D \<or> c = CHR 0x09)"

definition is_digit :: "char \<Rightarrow> bool" where
  "is_digit c = (48 \<le> (of_char c :: nat) \<and> (of_char c :: nat) \<le> 57)"

definition digit_val :: "char \<Rightarrow> nat" where
  "digit_val c = of_char c - 48"

definition hex_val :: "char \<Rightarrow> nat option" where
  "hex_val c =
     (let n = (of_char c :: nat) in
      if 48 \<le> n \<and> n \<le> 57 then Some (n - 48)
      else if 97 \<le> n \<and> n \<le> 102 then Some (n - 87)
      else if 65 \<le> n \<and> n \<le> 70 then Some (n - 55)
      else None)"

definition unescape :: "char \<Rightarrow> char option" where
  "unescape e =
     (if e = CHR 0x22 \<or> e = CHR 0x5C \<or> e = CHR ''/'' then Some e
      else if e = CHR ''b'' then Some (CHR 0x08)
      else if e = CHR ''t'' then Some (CHR 0x09)
      else if e = CHR ''n'' then Some (CHR 0x0A)
      else if e = CHR ''f'' then Some (CHR 0x0C)
      else if e = CHR ''r'' then Some (CHR 0x0D)
      else None)"

fun scan_string :: "string \<Rightarrow> (string \<times> string) option" where
  "scan_string [] = None"
| "scan_string (c # cs) =
     (if c = CHR 0x22 then Some ([], cs)
      else if c = CHR 0x5C then
        (case cs of
           [] \<Rightarrow> None
         | e # cs' \<Rightarrow>
             if e = CHR ''u'' then
               (case cs' of
                  h1 # h2 # h3 # h4 # cs'' \<Rightarrow>
                    (case (hex_val h3, hex_val h4) of
                       (Some a, Some b) \<Rightarrow>
                         if h1 = CHR ''0'' \<and> h2 = CHR ''0'' then
                           map_option (\<lambda>(s, r). (char_of (16 * a + b) # s, r)) (scan_string cs'')
                         else None
                     | _ \<Rightarrow> None)
                | _ \<Rightarrow> None)
             else
               (case unescape e of
                  None \<Rightarrow> None
                | Some d \<Rightarrow> map_option (\<lambda>(s, r). (d # s, r)) (scan_string cs')))
      else if (of_char c :: nat) < 32 then None
      else map_option (\<lambda>(s, r). (c # s, r)) (scan_string cs))"

fun scan_digits :: "nat \<Rightarrow> string \<Rightarrow> nat \<times> string" where
  "scan_digits acc [] = (acc, [])"
| "scan_digits acc (c # cs) =
     (if is_digit c then scan_digits (10 * acc + digit_val c) cs else (acc, c # cs))"

definition number_end :: "string \<Rightarrow> bool" where
  "number_end r = (case r of [] \<Rightarrow> True | c # cs \<Rightarrow> c \<noteq> CHR ''.'' \<and> c \<noteq> CHR ''e'' \<and> c \<noteq> CHR ''E'')"

definition scan_number :: "string \<Rightarrow> (int \<times> string) option" where
  "scan_number s =
     (case s of
        [] \<Rightarrow> None
      | c # cs \<Rightarrow>
          if c = CHR ''-'' then
            (case cs of
               [] \<Rightarrow> None
             | d # ds \<Rightarrow>
                 if \<not> is_digit d then None
                 else if d = CHR ''0'' then (if number_end ds then Some (0, ds) else None)
                 else (case scan_digits 0 cs of (n, r) \<Rightarrow> if number_end r then Some (- int n, r) else None))
          else if \<not> is_digit c then None
          else if c = CHR ''0'' then (if number_end cs then Some (0, cs) else None)
          else (case scan_digits 0 s of (n, r) \<Rightarrow> if number_end r then Some (int n, r) else None))"

fun lex :: "string \<Rightarrow> string \<Rightarrow> tok list option" where
  "lex fuel [] = Some []"
| "lex [] (c # cs) = None"
| "lex (f # fuel) (c # cs) =
     (if is_ws c then lex fuel cs
      else if c = CHR ''{'' then map_option (Cons TLBrace) (lex fuel cs)
      else if c = CHR ''}'' then map_option (Cons TRBrace) (lex fuel cs)
      else if c = CHR ''['' then map_option (Cons TLBrack) (lex fuel cs)
      else if c = CHR '']'' then map_option (Cons TRBrack) (lex fuel cs)
      else if c = CHR '':'' then map_option (Cons TColon) (lex fuel cs)
      else if c = CHR '','' then map_option (Cons TComma) (lex fuel cs)
      else if c = CHR 0x22 then
        (case scan_string cs of
           None \<Rightarrow> None
         | Some (s, r) \<Rightarrow> map_option (Cons (TVal (JStr s))) (lex fuel r))
      else if take 4 (c # cs) = ''true'' then map_option (Cons (TVal (JBool True))) (lex fuel (drop 3 cs))
      else if take 5 (c # cs) = ''false'' then map_option (Cons (TVal (JBool False))) (lex fuel (drop 4 cs))
      else if take 4 (c # cs) = ''null'' then map_option (Cons (TVal JNull)) (lex fuel (drop 3 cs))
      else
        (case scan_number (c # cs) of
           None \<Rightarrow> None
         | Some (i, r) \<Rightarrow> map_option (Cons (TVal (JNum i))) (lex fuel r)))"

fun parse_value :: "tok list \<Rightarrow> tok list \<Rightarrow> (jsval \<times> tok list) option"
  and parse_elems :: "tok list \<Rightarrow> tok list \<Rightarrow> jsval list \<Rightarrow> (jsval \<times> tok list) option"
  and parse_members :: "tok list \<Rightarrow> tok list \<Rightarrow> (string \<times> jsval) list \<Rightarrow> (jsval \<times> tok list) option" where
  "parse_value [] ts = None"
| "parse_value (f # fuel) ts =
     (case ts of
        TVal v # r \<Rightarrow> Some (v, r)
      | TLBrack # TRBrack # r \<Rightarrow> Some (JArr [], r)
      | TLBrack # r \<Rightarrow> parse_elems fuel r []
      | TLBrace # TRBrace # r \<Rightarrow> Some (JObj [], r)
      | TLBrace # r \<Rightarrow> parse_members fuel r []
      | _ \<Rightarrow> None)"
| "parse_elems [] ts acc = None"
| "parse_elems (f # fuel) ts acc =
     (case parse_value fuel ts of
        None \<Rightarrow> None
      | Some (v, r) \<Rightarrow>
          (case r of
             TComma # r' \<Rightarrow> parse_elems fuel r' (acc @ [v])
           | TRBrack # r' \<Rightarrow> Some (JArr (acc @ [v]), r')
           | _ \<Rightarrow> None))"
| "parse_members [] ts acc = None"
| "parse_members (f # fuel) ts acc =
     (case ts of
        TVal (JStr k) # TColon # r \<Rightarrow>
          (case parse_value fuel r of
             None \<Rightarrow> None
           | Some (v, r') \<Rightarrow>
               (case r' of
                  TComma # r'' \<Rightarrow> parse_members fuel r'' (set_prop acc k v)
                | TRBrace # r'' \<Rightarrow> Some (JObj (set_prop acc k v), r'')
                | _ \<Rightarrow> None))
      | _ \<Rightarrow> None)"

definition parse :: "string \<Rightarrow> jsval option" where
  "parse s =
     (case lex s s of
        None \<Rightarrow> None
      | Some ts \<Rightarrow>
          (case parse_value (TComma # TComma # ts) ts of
             Some (v, []) \<Rightarrow> Some v
           | _ \<Rightarrow> None))"

definition json_stringify :: "jsval \<Rightarrow> string \<Rightarrow> string" where
  "json_stringify v space = (case stringify space [] v of None \<Rightarrow> [] | Some s \<Rightarrow> s)"

definition checksum_hex :: "string \<Rightarrow> string" where
  "checksum_hex s =
     (let h = foldl (\<lambda>h c. (33 * h + of_char c) mod 65536) (5381 :: int) s
      in map (\<lambda>d. hex_digit (nat ((h div d) mod 16))) [4096, 256, 16, 1])"

fun split_on :: "char \<Rightarrow> string \<Rightarrow> string \<Rightarrow> string list" where
  "split_on sep cur [] = [cur]"
| "split_on sep cur (c # cs) =
     (if c = sep then cur # split_on sep [] cs else split_on sep (cur @ [c]) cs)"

fun normalize_segments :: "string list \<Rightarrow> string list \<Rightarrow> string list" where
  "normalize_segments stack [] = rev stack"
| "normalize_segments stack (x # xs) =
     (if x = [] \<or> x = ''.'' then normalize_segments stack xs
      else if x = ''..'' then
        (case stack of
           [] \<Rightarrow> normalize_segments [''..''] xs
         | t # ts \<Rightarrow>
             if t = ''..'' then normalize_segments (''..'' # stack) xs
             else normalize_segments ts xs)
      else normalize_segments (x # stack) xs)"

definition posix_join :: "string list \<Rightarrow> string" where
  "posix_join segs =
     (let joined = intercalate ''/'' (filter (\<lambda>s. s \<noteq> []) segs);
          parts = normalize_segments [] (split_on (CHR ''/'') [] joined)
      in if parts = [] then ''.'' else intercalate ''/'' parts)"

definition plain_URL_host :: "string \<Rightarrow> string" where
  "plain_URL_host u =
     takeWhile (\<lambda>c. c \<noteq> CHR ''/'' \<and> c \<noteq> CHR ''?'' \<and> c \<noteq> CHR ''#'') (drop 7 u)"

definition plain_URL_new :: "string \<Rightarrow> string option" where
  "plain_URL_new s =
     (if take 7 s = ''http://'' \<and> plain_URL_host s \<noteq> [] then Some s else None)"

definition plain_searchParams_get :: "string \<Rightarrow> string \<Rightarrow> string option" where
  "plain_searchParams_get u k =
     (let query = takeWhile (\<lambda>c. c \<noteq> CHR ''#'') (drop 1 (dropWhile (\<lambda>c. c \<noteq> CHR ''?'') u));
          pairs = map (\<lambda>p. (takeWhile (\<lambda>c. c \<noteq> CHR ''='') p,
                             drop 1 (dropWhile (\<lambda>c. c \<noteq> CHR ''='') p)))
                      (filter (\<lambda>p. p \<noteq> []) (split_on (CHR ''&'') [] query))
      in map_of pairs k)"

definition plain_Response_new :: "jsval \<Rightarrow> jsval \<Rightarrow> jsval \<Rightarrow> js_error option" where
  "plain_Response_new b st hs =
     (case st of
        JNum n \<Rightarrow>
          if n < 200 \<or> 599 < n then Some (OtherError ''RangeError'')
          else if (n = 204 \<or> n = 205 \<or> n = 304) \<and> b \<noteq> JUndefined \<and> b \<noteq> JNull
               then Some TypeError
          else None
      | _ \<Rightarrow> None)"

definition example_runtime :: runtime where
  "example_runtime =
     \<lparr>sha1_hex = checksum_hex,
      JSON_stringify = json_stringify,
      JSON_parse = parse,
      path_join = posix_join,
      URL_new = plain_URL_new,
      URL_host = plain_URL_host,
      searchParams_get = plain_searchParams_get,
      Response_new = plain_Response_new\<rparr>"

section \<open>Example inputs\<close>

text \<open>
  The request of the specification's test (\<^verbatim>\<open>GET http://example.com/a\<close>), the same
  request under other headers, a transport that answers 200 with body \<^verbatim>\<open>hello\<close>, one
  that answers 500, both counting their calls, and a state with an empty file system.
\<close>

definition example_request :: RequestInfo where
  "example_request =
     \<lparr>url = ''http://example.com/a'', http_method = ''GET'',
      headers = [(''user-agent'', ''curl'')], body = []\<rparr>"

definition other_headers_request :: RequestInfo where
  "other_headers_request =
     \<lparr>url = ''http://example.com/a'', http_method = ''GET'',
      headers = [(''accept'', ''text/plain''), (''user-agent'', ''deno'')], body = []\<rparr>"

definition ok_Response :: Response where
  "ok_Response =
     \<lparr>resp_status = 200, resp_headers = [(''content-type'', ''text/plain'')],
      resp_text = Inr ''hello''\<rparr>"

definition error_Response :: Response where
  "error_Response = \<lparr>resp_status = 500, resp_headers = [], resp_text = Inr ''down''\<rparr>"

definition hello_transport :: "string \<Rightarrow> Headers \<Rightarrow> nat \<Rightarrow> (js_error + Response) \<times> nat" where
  "hello_transport u hs n = (Inr ok_Response, Suc n)"

definition failing_transport :: "string \<Rightarrow> Headers \<Rightarrow> nat \<Rightarrow> (js_error + Response) \<times> nat" where
  "failing_transport u hs n = (Inr error_Response, Suc n)"

definition hello_response :: ResponseInfo where
  "hello_response =
     \<lparr>status = JNum 200, rheaders = JObj [(''content-type'', JStr ''text/plain'')],
      data = JStr ''hello''\<rparr>"

definition empty_filesystem :: filesystem where
  "empty_filesystem = \<lparr>files = Map.empty, unreadable = {}, unwritable = {}\<rparr>"

definition empty_world :: "nat world" where
  "empty_world = \<lparr>fs = empty_filesystem, console = [], clock = 1000, origin = 0\<rparr>"

definition second_response :: ResponseInfo where
  "second_response =
     \<lparr>status = JNum 200, rheaders = JObj [], data = JStr ''world''\<rparr>"

definition error_descriptor :: ResponseInfo where
  "error_descriptor = \<lparr>status = JNum 500, rheaders = JObj [], data = JStr []\<rparr>"

definition example_path :: string where
  "example_path = buildFilepath example_runtime example_request"

definition world_with_file :: "string \<Rightarrow> nat world" where
  "world_with_file s =
     empty_world\<lparr>fs := empty_filesystem\<lparr>files := [example_path \<mapsto> s]\<rparr>\<rparr>"

definition after_first_call :: "nat world" where
  "after_first_call =
     snd (cachedFetcher_fetch example_runtime hello_transport example_request empty_world)"


definition bare_inbound :: HttpRequest where
  "bare_inbound =
     \<lparr>request_url = ''http://localhost:8080/'', request_method = ''GET'',
      request_headers = [], request_text = Inr []\<rparr>"

definition proxied_inbound :: HttpRequest where
  "proxied_inbound =
     \<lparr>request_url = ''http://localhost:8080/?u=http://example.com/a'',
      request_method = ''GET'', request_headers = [(''user-agent'', ''curl'')],
      request_text = Inr []\<rparr>"

definition res_without_fields_text :: string where
  \<open>res_without_fields_text = ''{"res": {}}''\<close>

definition undefined_descriptor :: ResponseInfo where
  "undefined_descriptor = \<lparr>status = JUndefined, rheaders = JUndefined, data = JUndefined\<rparr>"

definition after_failed_call :: "nat world" where
  "after_failed_call =
     snd (cachedFetcher_fetch example_runtime failing_transport example_request empty_world)"

definition after_first_set :: "nat world" where
  "after_first_set =
     snd (Cache_set example_runtime example_request hello_response empty_world)"

definition after_second_set :: "nat world" where
  "after_second_set =
     snd (Cache_set example_runtime example_request second_response after_first_set)"

section \<open>The states the proxy reaches\<close>

text \<open>
  The states of a proxy that starts with no cache file and whose cache only the decorated
  method writes: any number of calls of it, with the clock moving in between.
\<close>

inductive_set reachable ::
  "runtime \<Rightarrow> (RequestInfo \<Rightarrow> 'o \<Rightarrow> (js_error + ResponseInfo) \<times> 'o) \<Rightarrow> 'o world set"
  for rt :: runtime and meth :: "RequestInfo \<Rightarrow> 'o \<Rightarrow> (js_error + ResponseInfo) \<times> 'o" where
  start: "files (fs w) = Map.empty \<Longrightarrow> w \<in> reachable rt meth"
| call: "w \<in> reachable rt meth \<Longrightarrow> snd (CachableRequest rt meth req w) \<in> reachable rt meth"
| tick: "w \<in> reachable rt meth \<Longrightarrow> w\<lparr>clock := t\<rparr> \<in> reachable rt meth"

section \<open>The fingerprint\<close>

lemma hash_payload_fields:
  "hash_payload req =
     JObj [(''url'', JStr (url req)), (''method'', JStr (http_method req)),
           (''headers'', JObj []), (''body'', JStr (body req))]"
  by (simp add: hash_payload_def RequestInfo_toJSON_def)

lemma hash_cong:
  "url r1 = url r2 \<Longrightarrow> http_method r1 = http_method r2 \<Longrightarrow> body r1 = body r2 \<Longrightarrow>
   hash rt r1 = hash rt r2"
  by (simp add: hash_def hash_payload_fields)

lemma buildFilepath_cong:
  "url r1 = url r2 \<Longrightarrow> http_method r1 = http_method r2 \<Longrightarrow> body r1 = body r2 \<Longrightarrow>
   buildFilepath rt r1 = buildFilepath rt r2"
  by (simp add: buildFilepath_def hash_cong [of r1 r2])

text \<open>
  Claim C3. The fingerprint \<open>hash\<close> depends on the URL, the method and the body of a
  request only: two requests that agree on these three have the same fingerprint,
  whatever their headers are (reordered, extended, shortened or replaced).
\<close>

theorem hash_ignores_headers:
  assumes "url r1 = url r2" and "http_method r1 = http_method r2" and "body r1 = body r2"
  shows "hash rt r1 = hash rt r2"
  using assms by (rule hash_cong)

theorem hash_ignores_headers_witness:
  "url example_request = url other_headers_request \<and>
   http_method example_request = http_method other_headers_request \<and>
   body example_request = body other_headers_request \<and>
   headers example_request \<noteq> headers other_headers_request \<and>
   (\<forall>rt. hash rt example_request = hash rt other_headers_request)"
proof -
  have u: "url example_request = url other_headers_request"
    and m: "http_method example_request = http_method other_headers_request"
    and b: "body example_request = body other_headers_request"
    and h: "headers example_request \<noteq> headers other_headers_request"
    by (simp_all add: example_request_def other_headers_request_def)
  from hash_ignores_headers [OF u m b] u m b h show ?thesis by blast
qed

section \<open>Responses\<close>

text \<open>
  Claim C6. \<open>fromResponse\<close> reads the body of a transport response only when its status
  is 200: any other status gives a descriptor with the empty string as data, without
  touching the body; status 200 gives the body text as data. The descriptor carries the
  status of the response, and \<open>isSuccessful\<close> holds of a descriptor exactly when its
  status is 200.
\<close>

theorem fromResponse_body_only_on_200:
  "(resp_status res \<noteq> 200 \<longrightarrow>
      fromResponse res =
        Inr \<lparr>status = JNum (resp_status res), rheaders = headers_record (resp_headers res),
             data = JStr []\<rparr>) \<and>
   (resp_status res = 200 \<longrightarrow> resp_text res = Inr t \<longrightarrow>
      fromResponse res =
        Inr \<lparr>status = JNum 200, rheaders = headers_record (resp_headers res),
             data = JStr t\<rparr>) \<and>
   (fromResponse res = Inr ri \<longrightarrow>
      status ri = JNum (resp_status res) \<and> isSuccessful ri = (resp_status res = 200)) \<and>
   isSuccessful r = (status r = JNum 200)"
  by (auto simp: fromResponse_def isSuccessful_def split: sum.splits if_splits)

theorem fromResponse_body_only_on_200_witness:
  "resp_status error_Response \<noteq> 200 \<and>
   fromResponse error_Response = Inr \<lparr>status = JNum 500, rheaders = JObj [], data = JStr []\<rparr> \<and>
   \<not> isSuccessful \<lparr>status = JNum 500, rheaders = JObj [], data = JStr []\<rparr> \<and>
   resp_status ok_Response = 200 \<and>
   resp_text ok_Response = Inr ''hello'' \<and>
   fromResponse ok_Response = Inr hello_response \<and>
   isSuccessful hello_response"
  using
    fromResponse_body_only_on_200
      [where res = error_Response
         and ri = "\<lparr>status = JNum 500, rheaders = JObj [], data = JStr []\<rparr>"]
    fromResponse_body_only_on_200
      [where res = ok_Response and t = "''hello''" and ri = hello_response]
  by (simp add: error_Response_def ok_Response_def hello_response_def headers_record_def)

section \<open>Reading the cache\<close>

lemma Cache_get_state: "snd (Cache_get rt req w) = w"
  by (simp add: Cache_get_def Let_def split: sum.splits)

text \<open>
  Claim C10. \<open>Cache_get\<close> is read-only: whatever it returns (a descriptor, absent, or an
  error it lets through), the state after the call is the state before it, and so the
  files, and the paths that fail, are the same.
\<close>

theorem Cache_get_read_only:
  "snd (Cache_get rt req w) = w \<and> fs (snd (Cache_get rt req w)) = fs w"
  by (simp add: Cache_get_state)

section \<open>Deserialising\<close>

lemma get_prop_defined:
  "json \<noteq> JUndefined \<Longrightarrow> json \<noteq> JNull \<Longrightarrow> \<exists>v. get_prop json k = Inr v"
  by (cases json) simp_all

lemma get_prop_error: "get_prop json k = Inl e \<Longrightarrow> e = TypeError \<and> (json = JUndefined \<or> json = JNull)"
  by (cases json) simp_all

lemma fromJSON_defined:
  assumes "json \<noteq> JUndefined" and "json \<noteq> JNull"
  shows "\<exists>s h d. fromJSON json = Inr \<lparr>status = s, rheaders = h, data = d\<rparr>"
proof -
  from assms obtain s h d where
    "get_prop json ''status'' = Inr s" "get_prop json ''headers'' = Inr h"
    "get_prop json ''data'' = Inr d"
    using get_prop_defined by metis
  then show ?thesis by (simp add: fromJSON_def)
qed

lemma fromJSON_null: "fromJSON JNull = Inl Deserialize" "fromJSON JUndefined = Inl Deserialize"
  by (simp_all add: fromJSON_def)

lemma fromJSON_error:
  "fromJSON json = Inl e \<Longrightarrow> e = Deserialize \<and> (json = JUndefined \<or> json = JNull)"
  using fromJSON_defined [of json] by (auto simp: fromJSON_def split: sum.splits)

lemma fromJSON_toJSON: "fromJSON (ResponseInfo_toJSON r) = Inr r"
  by (simp add: fromJSON_def ResponseInfo_toJSON_def)

lemma get_prop_CachedItem: "get_prop (CachedItem t req res) ''res'' = Inr (ResponseInfo_toJSON res)"
  by (simp add: CachedItem_def)

section \<open>What get does, case by case\<close>

lemma Cache_get_fault:
  "buildFilepath rt req \<in> unreadable (fs w) \<Longrightarrow> Cache_get rt req w = (Inl IOFault, w)"
  by (simp add: Cache_get_def Cache_get_try_def readTextFile_def)

lemma Cache_get_missing:
  "buildFilepath rt req \<notin> unreadable (fs w) \<Longrightarrow> files (fs w) (buildFilepath rt req) = None \<Longrightarrow>
   Cache_get rt req w = (Inr None, w)"
  by (simp add: Cache_get_def Cache_get_try_def readTextFile_def)

lemma Cache_get_unparsable:
  "buildFilepath rt req \<notin> unreadable (fs w) \<Longrightarrow> files (fs w) (buildFilepath rt req) = Some s \<Longrightarrow>
   JSON_parse rt s = None \<Longrightarrow> Cache_get rt req w = (Inl SyntaxError, w)"
  by (simp add: Cache_get_def Cache_get_try_def readTextFile_def)

lemma Cache_get_parsed:
  "buildFilepath rt req \<notin> unreadable (fs w) \<Longrightarrow> files (fs w) (buildFilepath rt req) = Some s \<Longrightarrow>
   JSON_parse rt s = Some v \<Longrightarrow>
   Cache_get rt req w =
     (case get_prop v ''res'' of
        Inl e \<Rightarrow> (Inl TypeError, w)
      | Inr r \<Rightarrow> (case fromJSON r of Inl e \<Rightarrow> (Inr None, w) | Inr d \<Rightarrow> (Inr (Some d), w)))"
  by (auto simp: Cache_get_def Cache_get_try_def readTextFile_def
           split: sum.splits dest: get_prop_error fromJSON_error)

section \<open>What set does, case by case\<close>

lemma Cache_set_unsuccessful:
  "\<not> isSuccessful res \<Longrightarrow>
   Cache_set rt req res w =
     (Inr (), console_log ''Skip cache response because the call was not successful'' w)"
  by (simp add: Cache_set_def)

lemma Cache_set_fault:
  "isSuccessful res \<Longrightarrow> buildFilepath rt req \<in> unwritable (fs w) \<Longrightarrow>
   Cache_set rt req res w = (Inl IOFault, w)"
  by (simp add: Cache_set_def ensureFile_def writeTextFile_def Let_def split: option.splits)

lemma Cache_set_written:
  "isSuccessful res \<Longrightarrow> buildFilepath rt req \<notin> unwritable (fs w) \<Longrightarrow>
   Cache_set rt req res w =
     (Inr (),
      console_log (''Cached '' @ buildFilepath rt req)
        (w\<lparr>fs := (fs w)\<lparr>files := (files (fs w))
               (buildFilepath rt req \<mapsto> JSON_stringify rt (CachedItem (clock w) req res) ''  '')\<rparr>\<rparr>))"
  by (simp add: Cache_set_def ensureFile_def writeTextFile_def Let_def split: option.splits)

lemma Cache_set_files:
  "files (fs (snd (Cache_set rt req res w))) = files (fs w) \<or>
   isSuccessful res \<and>
   files (fs (snd (Cache_set rt req res w))) =
     (files (fs w))(buildFilepath rt req \<mapsto> JSON_stringify rt (CachedItem (clock w) req res) ''  '')"
proof (cases "isSuccessful res")
  case False
  then show ?thesis by (simp add: Cache_set_unsuccessful console_log_def)
next
  case True
  then show ?thesis
    by (cases "buildFilepath rt req \<in> unwritable (fs w)")
       (simp_all add: Cache_set_fault Cache_set_written console_log_def)
qed

lemma Cache_set_frame:
  "origin (snd (Cache_set rt req res w)) = origin w \<and>
   clock (snd (Cache_set rt req res w)) = clock w \<and>
   unreadable (fs (snd (Cache_set rt req res w))) = unreadable (fs w) \<and>
   unwritable (fs (snd (Cache_set rt req res w))) = unwritable (fs w)"
proof (cases "isSuccessful res")
  case False
  then show ?thesis by (simp add: Cache_set_unsuccessful console_log_def)
next
  case True
  then show ?thesis
    by (cases "buildFilepath rt req \<in> unwritable (fs w)")
       (simp_all add: Cache_set_fault Cache_set_written console_log_def)
qed

section \<open>What the decorated method does, case by case\<close>

lemma Cache_get_pair: "Cache_get rt req w = (fst (Cache_get rt req w), w)"
  using Cache_get_state [of rt req w] by (cases "Cache_get rt req w") simp

lemma CachableRequest_hit:
  assumes "fst (Cache_get rt req w) = Inr (Some c)"
  shows "CachableRequest rt meth req w =
           (Inr c, console_log (''Cache hit '' @ http_method req @ '' '' @ url req) w)"
proof -
  from assms have "Cache_get rt req w = (Inr (Some c), w)"
    using Cache_get_pair [of rt req w] by simp
  then show ?thesis by (simp add: CachableRequest_def)
qed

lemma CachableRequest_get_error:
  assumes "fst (Cache_get rt req w) = Inl e"
  shows "CachableRequest rt meth req w = (Inl e, w)"
proof -
  from assms have "Cache_get rt req w = (Inl e, w)"
    using Cache_get_pair [of rt req w] by simp
  then show ?thesis by (simp add: CachableRequest_def)
qed

lemma CachableRequest_origin_error:
  assumes "fst (Cache_get rt req w) = Inr None" and "meth req (origin w) = (Inl e, og)"
  shows "CachableRequest rt meth req w =
           (Inl e, (console_log (''Cache miss '' @ http_method req @ '' '' @ url req) w)
                     \<lparr>origin := og\<rparr>)"
proof -
  from assms(1) have "Cache_get rt req w = (Inr None, w)"
    using Cache_get_pair [of rt req w] by simp
  with assms(2) show ?thesis by (simp add: CachableRequest_def Let_def console_log_def)
qed

lemma CachableRequest_miss:
  assumes "fst (Cache_get rt req w) = Inr None" and "meth req (origin w) = (Inr r, og)"
  shows "CachableRequest rt meth req w =
           (case Cache_set rt req r
                   ((console_log (''Cache miss '' @ http_method req @ '' '' @ url req) w)
                      \<lparr>origin := og\<rparr>) of
              (Inl e, w3) \<Rightarrow> (Inl e, w3)
            | (Inr u, w3) \<Rightarrow> (Inr r, w3))"
proof -
  from assms(1) have "Cache_get rt req w = (Inr None, w)"
    using Cache_get_pair [of rt req w] by simp
  with assms(2) show ?thesis by (simp add: CachableRequest_def Let_def console_log_def)
qed

lemma CachableRequest_miss_state:
  assumes "fst (Cache_get rt req w) = Inr None" and "meth req (origin w) = (Inr r, og)"
  shows "snd (CachableRequest rt meth req w) =
           snd (Cache_set rt req r
                  ((console_log (''Cache miss '' @ http_method req @ '' '' @ url req) w)
                     \<lparr>origin := og\<rparr>))"
  by (simp add: CachableRequest_miss [of rt req w meth r og, OF assms] split: prod.splits sum.splits)

lemma CachableRequest_files:
  "files (fs (snd (CachableRequest rt meth req w))) = files (fs w) \<or>
   (\<exists>r og. meth req (origin w) = (Inr r, og) \<and> isSuccessful r \<and>
      files (fs (snd (CachableRequest rt meth req w))) =
        (files (fs w))(buildFilepath rt req \<mapsto>
           JSON_stringify rt (CachedItem (clock w) req r) ''  ''))"
proof (cases "fst (Cache_get rt req w)")
  case (Inl e)
  then show ?thesis by (simp add: CachableRequest_get_error)
next
  case (Inr found)
  show ?thesis
  proof (cases found)
    case (Some c)
    with Inr show ?thesis by (simp add: CachableRequest_hit console_log_def)
  next
    case None
    with Inr have miss: "fst (Cache_get rt req w) = Inr None" by simp
    obtain outcome og where m: "meth req (origin w) = (outcome, og)"
      by (cases "meth req (origin w)")
    show ?thesis
    proof (cases outcome)
      case (Inl e)
      with miss m show ?thesis by (simp add: CachableRequest_origin_error console_log_def)
    next
      case (Inr r)
      with m have mr: "meth req (origin w) = (Inr r, og)" by simp
      let ?w2 = "(console_log (''Cache miss '' @ http_method req @ '' '' @ url req) w)
                   \<lparr>origin := og\<rparr>"
      have st: "snd (CachableRequest rt meth req w) = snd (Cache_set rt req r ?w2)"
        by (rule CachableRequest_miss_state [of rt req w meth r og, OF miss mr])
      have w2: "files (fs ?w2) = files (fs w)" "clock ?w2 = clock w"
        by (simp_all add: console_log_def)
      from Cache_set_files [of rt req r ?w2] mr show ?thesis
        unfolding st w2 by blast
    qed
  qed
qed

lemma reachable_files:
  assumes "w \<in> reachable rt meth" and "files (fs w) p = Some s"
  shows "\<exists>req res og og' t. meth req og = (Inr res, og') \<and> isSuccessful res \<and>
           p = buildFilepath rt req \<and> s = JSON_stringify rt (CachedItem t req res) ''  ''"
  using assms
proof (induction arbitrary: p s rule: reachable.induct)
  case (start w)
  then show ?case by simp
next
  case (call w req)
  from CachableRequest_files [of rt meth req w] show ?case
  proof
    assume "files (fs (snd (CachableRequest rt meth req w))) = files (fs w)"
    with call.prems have "files (fs w) p = Some s" by simp
    then show ?thesis by (rule call.IH)
  next
    assume "\<exists>r og. meth req (origin w) = (Inr r, og) \<and> isSuccessful r \<and>
      files (fs (snd (CachableRequest rt meth req w))) =
        (files (fs w))(buildFilepath rt req \<mapsto>
           JSON_stringify rt (CachedItem (clock w) req r) ''  '')"
    then obtain r og where r: "meth req (origin w) = (Inr r, og)" "isSuccessful r"
      and f: "files (fs (snd (CachableRequest rt meth req w))) =
        (files (fs w))(buildFilepath rt req \<mapsto>
           JSON_stringify rt (CachedItem (clock w) req r) ''  '')"
      by blast
    show ?thesis
    proof (cases "p = buildFilepath rt req")
      case True
      with call.prems f have "s = JSON_stringify rt (CachedItem (clock w) req r) ''  ''"
        by simp
      with r True show ?thesis by blast
    next
      case False
      with call.prems f have "files (fs w) p = Some s" by simp
      then show ?thesis by (rule call.IH)
    qed
  qed
next
  case (tick w t)
  then show ?case by simp
qed

section \<open>The examples, evaluated\<close>


lemma example_request_fields:
  "url example_request = ''http://example.com/a''" "http_method example_request = ''GET''"
  "url other_headers_request = ''http://example.com/a''"
  "http_method other_headers_request = ''GET''"
  by (simp_all add: example_request_def other_headers_request_def)


lemma other_headers_path: "buildFilepath rt other_headers_request = buildFilepath rt example_request"
  by (rule buildFilepath_cong) (simp_all add: example_request_def other_headers_request_def)

lemma hello_roundtrip:
  "JSON_parse example_runtime
     (JSON_stringify example_runtime (CachedItem 1000 example_request hello_response) ''  '') =
   Some (CachedItem 1000 example_request hello_response)"
  by code_simp

lemma second_roundtrip:
  "JSON_parse example_runtime
     (JSON_stringify example_runtime (CachedItem 1000 example_request second_response) ''  '') =
   Some (CachedItem 1000 example_request second_response)"
  by code_simp

lemma fetch_hello: "Fetcher_fetch hello_transport req n = (Inr hello_response, Suc n)"
  by (simp add: Fetcher_fetch_def hello_transport_def fromResponse_def ok_Response_def
        hello_response_def headers_record_def)

lemma fetch_failing: "Fetcher_fetch failing_transport req n = (Inr error_descriptor, Suc n)"
  by (simp add: Fetcher_fetch_def failing_transport_def fromResponse_def error_Response_def
        error_descriptor_def headers_record_def)

lemma hello_successful: "isSuccessful hello_response" "isSuccessful second_response"
  "\<not> isSuccessful error_descriptor"
  by (simp_all add: isSuccessful_def hello_response_def second_response_def error_descriptor_def)

lemma empty_world_miss: "fst (Cache_get rt req empty_world) = Inr None"
  by (simp add: Cache_get_missing empty_world_def empty_filesystem_def)

lemma after_first_call_state:
  "after_first_call =
     console_log (''Cached '' @ example_path)
       (empty_world
          \<lparr>fs := empty_filesystem
                  \<lparr>files := [example_path \<mapsto>
                     JSON_stringify example_runtime
                       (CachedItem 1000 example_request hello_response) ''  '']\<rparr>,
           console := [''Cache miss GET http://example.com/a''],
           origin := Suc 0\<rparr>)"
proof -
  have m: "Fetcher_fetch hello_transport example_request (origin empty_world) =
             (Inr hello_response, Suc 0)"
    by (simp add: fetch_hello empty_world_def)
  have "after_first_call =
          snd (Cache_set example_runtime example_request hello_response
                 ((console_log
                     (''Cache miss '' @ http_method example_request @ '' '' @ url example_request)
                     empty_world)\<lparr>origin := Suc 0\<rparr>))"
    unfolding after_first_call_def cachedFetcher_fetch_def
    by (rule CachableRequest_miss_state
          [of example_runtime example_request empty_world "Fetcher_fetch hello_transport"
              hello_response "Suc 0", OF empty_world_miss m])
  then show ?thesis
    by (simp add: Cache_set_written hello_successful example_path_def [symmetric]
          console_log_def empty_world_def empty_filesystem_def example_request_fields)
qed

lemma after_first_call_hit:
  "fst (Cache_get example_runtime other_headers_request after_first_call) =
   Inr (Some hello_response)"
proof -
  have p: "buildFilepath example_runtime other_headers_request = example_path"
    by (simp add: other_headers_path example_path_def)
  have "Cache_get example_runtime other_headers_request after_first_call =
          (Inr (Some hello_response), after_first_call)"
    by (subst Cache_get_parsed
          [where s = "JSON_stringify example_runtime
                        (CachedItem 1000 example_request hello_response) ''  ''"
             and v = "CachedItem 1000 example_request hello_response"])
       (simp_all add: p after_first_call_state console_log_def empty_world_def
          empty_filesystem_def hello_roundtrip get_prop_CachedItem fromJSON_toJSON)
  then show ?thesis by simp
qed

section \<open>The decorator is a cache-aside wrapper\<close>

text \<open>
  Claim C1. The function that \<open>CachableRequest\<close> installs implements cache-aside.
  \<^item> When \<open>Cache_get\<close> returns a stored response, the call returns that response, logs
    the hit and leaves the origin's state as it was: the result does not depend on the
    wrapped method, which is not invoked.
  \<^item> When \<open>Cache_get\<close> reports absent and the wrapped method, run once on the origin's
    state, returns \<open>r\<close>: \<open>Cache_set\<close> is run with the request and \<open>r\<close> on the state the
    method left, and when it returns the call returns \<open>r\<close>, in the state \<open>Cache_set\<close>
    left, in which the origin has seen exactly that one invocation.
  \<^item> In particular an unsuccessful \<open>r\<close> is returned as well: \<open>Cache_set\<close> then only logs
    that it skips.
  A storage fault that \<open>Cache_get\<close> or \<open>Cache_set\<close> raises, and an error the wrapped
  method raises, end the call with that error (lemmas \<open>CachableRequest_get_error\<close>,
  \<open>CachableRequest_miss\<close>, \<open>CachableRequest_origin_error\<close>).
\<close>

theorem CachableRequest_cache_aside:
  "(fst (Cache_get rt req w) = Inr (Some c) \<longrightarrow>
      CachableRequest rt meth req w =
        (Inr c, console_log (''Cache hit '' @ http_method req @ '' '' @ url req) w) \<and>
      origin (snd (CachableRequest rt meth req w)) = origin w) \<and>
   (fst (Cache_get rt req w) = Inr None \<longrightarrow> meth req (origin w) = (Inr r, og) \<longrightarrow>
      Cache_set rt req r
        ((console_log (''Cache miss '' @ http_method req @ '' '' @ url req) w)\<lparr>origin := og\<rparr>) =
        (Inr (), w') \<longrightarrow>
      CachableRequest rt meth req w = (Inr r, w') \<and> origin w' = og) \<and>
   (fst (Cache_get rt req w) = Inr None \<longrightarrow> meth req (origin w) = (Inr r, og) \<longrightarrow>
      \<not> isSuccessful r \<longrightarrow>
      CachableRequest rt meth req w =
        (Inr r,
         console_log ''Skip cache response because the call was not successful''
           ((console_log (''Cache miss '' @ http_method req @ '' '' @ url req) w)
              \<lparr>origin := og\<rparr>)))"
proof (intro conjI impI)
  assume "fst (Cache_get rt req w) = Inr (Some c)"
  then show "CachableRequest rt meth req w =
        (Inr c, console_log (''Cache hit '' @ http_method req @ '' '' @ url req) w)"
    by (rule CachableRequest_hit)
  then show "origin (snd (CachableRequest rt meth req w)) = origin w"
    by (simp add: console_log_def)
next
  let ?w2 = "(console_log (''Cache miss '' @ http_method req @ '' '' @ url req) w)
               \<lparr>origin := og\<rparr>"
  assume miss: "fst (Cache_get rt req w) = Inr None"
    and m: "meth req (origin w) = (Inr r, og)"
    and set: "Cache_set rt req r ?w2 = (Inr (), w')"
  from CachableRequest_miss [of rt req w meth r og, OF miss m] set
  show "CachableRequest rt meth req w = (Inr r, w')" by simp
  from Cache_set_frame [of rt req r ?w2] set show "origin w' = og" by simp
next
  let ?w2 = "(console_log (''Cache miss '' @ http_method req @ '' '' @ url req) w)
               \<lparr>origin := og\<rparr>"
  assume miss: "fst (Cache_get rt req w) = Inr None"
    and m: "meth req (origin w) = (Inr r, og)"
    and fail: "\<not> isSuccessful r"
  from CachableRequest_miss [of rt req w meth r og, OF miss m]
    Cache_set_unsuccessful [OF fail, of rt req ?w2]
  show "CachableRequest rt meth req w =
        (Inr r,
         console_log ''Skip cache response because the call was not successful'' ?w2)"
    by simp
qed

theorem CachableRequest_cache_aside_witness:
  "fst (Cache_get example_runtime example_request empty_world) = Inr None \<and>
   Fetcher_fetch hello_transport example_request (origin empty_world) =
     (Inr hello_response, Suc 0) \<and>
   cachedFetcher_fetch example_runtime hello_transport example_request empty_world =
     (Inr hello_response, after_first_call) \<and>
   origin after_first_call = Suc 0 \<and>
   fst (Cache_get example_runtime other_headers_request after_first_call) =
     Inr (Some hello_response) \<and>
   fst (cachedFetcher_fetch example_runtime hello_transport other_headers_request
          after_first_call) = Inr hello_response \<and>
   origin (snd (cachedFetcher_fetch example_runtime hello_transport other_headers_request
                  after_first_call)) = Suc 0 \<and>
   Fetcher_fetch failing_transport example_request (origin empty_world) =
     (Inr error_descriptor, Suc 0) \<and>
   \<not> isSuccessful error_descriptor \<and>
   fst (cachedFetcher_fetch example_runtime failing_transport example_request empty_world) =
     Inr error_descriptor"
proof -
  let ?rt = example_runtime
  let ?w2 = "(console_log
                (''Cache miss '' @ http_method example_request @ '' '' @ url example_request)
                empty_world)\<lparr>origin := Suc 0\<rparr>"
  have miss: "fst (Cache_get ?rt example_request empty_world) = Inr None"
    by (rule empty_world_miss)
  have m: "Fetcher_fetch hello_transport example_request (origin empty_world) =
             (Inr hello_response, Suc 0)"
    by (simp add: fetch_hello empty_world_def)
  have set: "Cache_set ?rt example_request hello_response ?w2 = (Inr (), after_first_call)"
    by (simp add: Cache_set_written hello_successful example_path_def [symmetric]
          after_first_call_state console_log_def empty_world_def empty_filesystem_def
          example_request_fields)
  have first: "cachedFetcher_fetch ?rt hello_transport example_request empty_world =
                 (Inr hello_response, after_first_call)"
    using CachableRequest_cache_aside
      [where rt = ?rt and req = example_request and w = empty_world
         and meth = "Fetcher_fetch hello_transport" and r = hello_response
         and og = "Suc 0" and w' = after_first_call]
      miss m set
    by (simp add: cachedFetcher_fetch_def)
  have og: "origin after_first_call = Suc 0"
    by (simp add: after_first_call_state console_log_def)
  have hit: "fst (Cache_get ?rt other_headers_request after_first_call) =
               Inr (Some hello_response)"
    by (rule after_first_call_hit)
  have second:
    "fst (cachedFetcher_fetch ?rt hello_transport other_headers_request after_first_call) =
       Inr hello_response"
    "origin (snd (cachedFetcher_fetch ?rt hello_transport other_headers_request
                    after_first_call)) = Suc 0"
    using CachableRequest_cache_aside
      [where rt = ?rt and req = other_headers_request and w = after_first_call
         and meth = "Fetcher_fetch hello_transport" and c = hello_response]
      hit og
    by (simp_all add: cachedFetcher_fetch_def console_log_def)
  have fm: "Fetcher_fetch failing_transport example_request (origin empty_world) =
              (Inr error_descriptor, Suc 0)"
    by (simp add: fetch_failing empty_world_def)
  have failed:
    "fst (cachedFetcher_fetch ?rt failing_transport example_request empty_world) =
       Inr error_descriptor"
    using CachableRequest_cache_aside
      [where rt = ?rt and req = example_request and w = empty_world
         and meth = "Fetcher_fetch failing_transport" and r = error_descriptor
         and og = "Suc 0"]
      miss fm hello_successful(3)
    by (simp add: cachedFetcher_fetch_def)
  from miss m first og hit second fm hello_successful(3) failed show ?thesis by blast
qed

section \<open>Failures are not cached\<close>

lemma failed_call:
  assumes "files (fs w) = Map.empty" and "unreadable (fs w) = {}"
  shows "cachedFetcher_fetch rt failing_transport req w =
           (Inr error_descriptor,
            console_log ''Skip cache response because the call was not successful''
              ((console_log (''Cache miss '' @ http_method req @ '' '' @ url req) w)
                 \<lparr>origin := Suc (origin w)\<rparr>))"
proof -
  from assms have miss: "fst (Cache_get rt req w) = Inr None"
    by (simp add: Cache_get_missing)
  have m: "Fetcher_fetch failing_transport req (origin w) = (Inr error_descriptor, Suc (origin w))"
    by (rule fetch_failing)
  from CachableRequest_miss [of rt req w "Fetcher_fetch failing_transport" error_descriptor
      "Suc (origin w)", OF miss m]
  show ?thesis
    by (simp add: cachedFetcher_fetch_def Cache_set_unsuccessful hello_successful(3))
qed

lemma after_failed_call_state:
  "files (fs after_failed_call) = Map.empty" "unreadable (fs after_failed_call) = {}"
  "origin after_failed_call = Suc 0"
  by (simp_all add: after_failed_call_def failed_call empty_world_def empty_filesystem_def
        console_log_def)


text \<open>
  Claim C4. For a response that is not successful, \<open>Cache_set\<close> writes nothing (the file
  system after the call is the one before it) and logs that it skips; it changes the file
  system only for a successful response. Consequently, in every state the proxy reaches
  from an empty cache, each cache file lies at the path of a request whose fetch returned
  a successful response, and holds the entry built from that request and that response.
\<close>

theorem Cache_set_skips_failures:
  "(\<not> isSuccessful res \<longrightarrow>
      Cache_set rt req res w =
        (Inr (), console_log ''Skip cache response because the call was not successful'' w) \<and>
      fs (snd (Cache_set rt req res w)) = fs w) \<and>
   (files (fs (snd (Cache_set rt req res w))) \<noteq> files (fs w) \<longrightarrow> isSuccessful res) \<and>
   (v \<in> reachable rt meth \<longrightarrow> files (fs v) p = Some s \<longrightarrow>
      (\<exists>req' res' og og' t.
         meth req' og = (Inr res', og') \<and> isSuccessful res' \<and>
         p = buildFilepath rt req' \<and>
         s = JSON_stringify rt (CachedItem t req' res') ''  ''))"
proof (intro conjI impI)
  assume "\<not> isSuccessful res"
  then show "Cache_set rt req res w =
        (Inr (), console_log ''Skip cache response because the call was not successful'' w)"
    by (rule Cache_set_unsuccessful)
  then show "fs (snd (Cache_set rt req res w)) = fs w"
    by (simp add: console_log_def)
next
  assume "files (fs (snd (Cache_set rt req res w))) \<noteq> files (fs w)"
  with Cache_set_files [of rt req res w] show "isSuccessful res" by blast
next
  assume "v \<in> reachable rt meth" and "files (fs v) p = Some s"
  then show "\<exists>req' res' og og' t.
         meth req' og = (Inr res', og') \<and> isSuccessful res' \<and>
         p = buildFilepath rt req' \<and>
         s = JSON_stringify rt (CachedItem t req' res') ''  ''"
    by (rule reachable_files)
qed

theorem Cache_set_skips_failures_witness:
  "\<not> isSuccessful error_descriptor \<and>
   Cache_set example_runtime example_request error_descriptor empty_world =
     (Inr (), console_log ''Skip cache response because the call was not successful''
                empty_world) \<and>
   files (fs (snd (Cache_set example_runtime example_request hello_response empty_world))) \<noteq>
     files (fs empty_world) \<and>
   isSuccessful hello_response \<and>
   files (fs after_failed_call) = Map.empty \<and>
   origin after_failed_call = Suc 0 \<and>
   origin (snd (cachedFetcher_fetch example_runtime failing_transport example_request
                  after_failed_call)) = Suc (Suc 0) \<and>
   after_first_call \<in> reachable example_runtime (Fetcher_fetch hello_transport) \<and>
   files (fs after_first_call) example_path =
     Some (JSON_stringify example_runtime
             (CachedItem 1000 example_request hello_response) ''  '') \<and>
   (\<exists>req' res' og og' t.
      Fetcher_fetch hello_transport req' og = (Inr res', og') \<and> isSuccessful res' \<and>
      example_path = buildFilepath example_runtime req' \<and>
      JSON_stringify example_runtime (CachedItem 1000 example_request hello_response) ''  '' =
        JSON_stringify example_runtime (CachedItem t req' res') ''  '')"
proof -
  let ?rt = example_runtime
  let ?s = "JSON_stringify ?rt (CachedItem 1000 example_request hello_response) ''  ''"
  have skip: "Cache_set ?rt example_request error_descriptor empty_world =
     (Inr (), console_log ''Skip cache response because the call was not successful''
                empty_world)"
    using Cache_set_skips_failures
      [where res = error_descriptor and rt = ?rt and req = example_request
         and w = empty_world and v = after_first_call
         and meth = "Fetcher_fetch hello_transport" and p = example_path and s = ?s]
      hello_successful(3)
    by blast
  have changed:
    "files (fs (snd (Cache_set ?rt example_request hello_response empty_world))) \<noteq>
       files (fs empty_world)"
  proof
    assume "files (fs (snd (Cache_set ?rt example_request hello_response empty_world))) =
       files (fs empty_world)"
    then have "files (fs (snd (Cache_set ?rt example_request hello_response empty_world)))
                 example_path = files (fs empty_world) example_path"
      by simp
    then show False
      by (simp add: Cache_set_written hello_successful example_path_def [symmetric]
            console_log_def empty_world_def empty_filesystem_def)
  qed
  have "empty_world \<in> reachable ?rt (Fetcher_fetch hello_transport)"
    by (rule reachable.start) (simp add: empty_world_def empty_filesystem_def)
  then have "snd (CachableRequest ?rt (Fetcher_fetch hello_transport) example_request
                    empty_world) \<in> reachable ?rt (Fetcher_fetch hello_transport)"
    by (rule reachable.call)
  then have reach: "after_first_call \<in> reachable ?rt (Fetcher_fetch hello_transport)"
    by (simp add: after_first_call_def cachedFetcher_fetch_def)
  have stored: "files (fs after_first_call) example_path = Some ?s"
    by (simp add: after_first_call_state console_log_def)
  from Cache_set_skips_failures
      [where v = after_first_call and rt = ?rt and meth = "Fetcher_fetch hello_transport"
         and p = example_path and s = ?s]
    reach stored
  have "\<exists>req' res' og og' t.
      Fetcher_fetch hello_transport req' og = (Inr res', og') \<and> isSuccessful res' \<and>
      example_path = buildFilepath ?rt req' \<and>
      ?s = JSON_stringify ?rt (CachedItem t req' res') ''  ''"
    by blast
  moreover have
    "origin (snd (cachedFetcher_fetch ?rt failing_transport example_request
                    after_failed_call)) = Suc (Suc 0)"
    by (simp add: failed_call after_failed_call_state console_log_def)
  ultimately show ?thesis
    using hello_successful skip changed reach stored after_failed_call_state by blast
qed

section \<open>Overwriting\<close>

text \<open>
  Claim C5. \<open>Cache_set\<close> overwrites: after \<open>Cache_set\<close> with a successful \<open>res1\<close> and then
  with a successful \<open>res2\<close> for the same request, both returning, \<open>Cache_get\<close> for that
  request returns \<open>res2\<close> (its status, headers and data), not \<open>res1\<close>. It is assumed that
  the path can be read and that \<^verbatim>\<open>JSON.parse\<close> gives back the entry that
  \<^verbatim>\<open>JSON.stringify\<close> wrote, as it does for the values of a typed descriptor.
\<close>

theorem Cache_set_overwrites:
  assumes "isSuccessful res1" and "isSuccessful res2"
    and "Cache_set rt req res1 w = (Inr (), w1)"
    and "Cache_set rt req res2 w1 = (Inr (), w2)"
    and "buildFilepath rt req \<notin> unreadable (fs w2)"
    and "JSON_parse rt (JSON_stringify rt (CachedItem (clock w1) req res2) ''  '') =
           Some (CachedItem (clock w1) req res2)"
  shows "Cache_get rt req w2 = (Inr (Some res2), w2)"
proof -
  let ?p = "buildFilepath rt req"
  let ?s = "JSON_stringify rt (CachedItem (clock w1) req res2) ''  ''"
  have writable: "?p \<notin> unwritable (fs w1)"
  proof
    assume "?p \<in> unwritable (fs w1)"
    with assms(2) have "Cache_set rt req res2 w1 = (Inl IOFault, w1)"
      by (rule Cache_set_fault)
    with assms(4) show False by simp
  qed
  from Cache_set_written [OF assms(2) writable] assms(4)
  have "files (fs w2) ?p = Some ?s"
    by (auto simp: console_log_def)
  with assms(5,6) show ?thesis
    by (simp add: Cache_get_parsed [where s = ?s and v = "CachedItem (clock w1) req res2"]
          get_prop_CachedItem fromJSON_toJSON)
qed

lemma after_first_set_state:
  "Cache_set example_runtime example_request hello_response empty_world =
     (Inr (), after_first_set)"
  "after_first_set =
     console_log (''Cached '' @ example_path)
       (empty_world
          \<lparr>fs := empty_filesystem
                  \<lparr>files := [example_path \<mapsto>
                     JSON_stringify example_runtime
                       (CachedItem 1000 example_request hello_response) ''  '']\<rparr>\<rparr>)"
  by (simp_all add: after_first_set_def Cache_set_written hello_successful
        example_path_def [symmetric] console_log_def empty_world_def empty_filesystem_def)

lemma after_second_set_state:
  "Cache_set example_runtime example_request second_response after_first_set =
     (Inr (), after_second_set)"
  "files (fs after_second_set) example_path =
     Some (JSON_stringify example_runtime
             (CachedItem 1000 example_request second_response) ''  '')"
  "unreadable (fs after_second_set) = {}"
  "clock after_first_set = 1000"
  by (simp_all add: after_second_set_def Cache_set_written hello_successful
        example_path_def [symmetric] after_first_set_state(2) console_log_def empty_world_def
        empty_filesystem_def)

theorem Cache_set_overwrites_witness:
  "isSuccessful hello_response \<and> isSuccessful second_response \<and>
   hello_response \<noteq> second_response \<and>
   Cache_set example_runtime example_request hello_response empty_world =
     (Inr (), after_first_set) \<and>
   Cache_set example_runtime example_request second_response after_first_set =
     (Inr (), after_second_set) \<and>
   buildFilepath example_runtime example_request \<notin> unreadable (fs after_second_set) \<and>
   JSON_parse example_runtime
     (JSON_stringify example_runtime
        (CachedItem (clock after_first_set) example_request second_response) ''  '') =
     Some (CachedItem (clock after_first_set) example_request second_response) \<and>
   Cache_get example_runtime example_request after_second_set =
     (Inr (Some second_response), after_second_set)"
proof -
  have ne: "hello_response \<noteq> second_response"
    by (simp add: hello_response_def second_response_def)
  have readable: "buildFilepath example_runtime example_request \<notin> unreadable (fs after_second_set)"
    by (simp add: after_second_set_state)
  have rt: "JSON_parse example_runtime
     (JSON_stringify example_runtime
        (CachedItem (clock after_first_set) example_request second_response) ''  '') =
     Some (CachedItem (clock after_first_set) example_request second_response)"
    by (simp only: after_second_set_state(4) second_roundtrip)
  from Cache_set_overwrites
    [OF hello_successful(1) hello_successful(2) after_first_set_state(1)
        after_second_set_state(1) readable rt]
    hello_successful ne after_first_set_state(1) after_second_set_state(1) readable rt
  show ?thesis by blast
qed

section \<open>The storage path\<close>










section \<open>A request without a target\<close>

lemma serveHttp_lacks_target:
  assumes "lacks_target rt requestEvent"
  shows "serveHttp rt cachedFetch (requestEvent # rest) w = (([not_found_response], Inr ()), w)"
  using assms by (auto simp: lacks_target_def split: option.splits)

lemma serveHttp_served_before:
  assumes "list_all (\<lambda>e. \<not> lacks_target rt e) before"
    and "serveHttp rt cachedFetch before w = ((outs, Inr ()), w')"
    and "lacks_target rt requestEvent"
  shows "serveHttp rt cachedFetch (before @ requestEvent # rest) w =
           ((outs @ [not_found_response], Inr ()), w')"
  using assms
proof (induction before arbitrary: w outs)
  case Nil
  then show ?case by (simp add: serveHttp_lacks_target del: serveHttp.simps(2))
next
  case (Cons e before)
  from Cons.prems(1) have e: "\<not> lacks_target rt e"
    and rest_ok: "list_all (\<lambda>e. \<not> lacks_target rt e) before"
    by simp_all
  from Cons.prems(2) e obtain u reqURL target req res w1 outs1 where
    steps: "URL_new rt (request_url e) = Some u" "searchParams_get rt u ''u'' = Some reqURL"
      "reqURL \<noteq> []" "URL_new rt reqURL = Some target" "fromRequest e target = Inr req"
      "cachedFetch req w = (Inr res, w1)"
      "Response_new rt (data res) (status res) (rheaders res) = None"
    and tail: "serveHttp rt cachedFetch before w1 = ((outs1, Inr ()), w')"
    and outs: "outs = \<lparr>out_body = data res, out_status = status res,
                         out_headers = rheaders res\<rparr> # outs1"
    by (auto simp: lacks_target_def split: option.splits if_splits sum.splits prod.splits)
  from Cons.IH [OF rest_ok tail Cons.prems(3)]
  have "serveHttp rt cachedFetch (before @ requestEvent # rest) w1 =
          ((outs1 @ [not_found_response], Inr ()), w')" .
  with steps outs show ?case by simp
qed

text \<open>
  Claim C8. When \<open>serveHttp\<close> comes to a request whose URL carries no target (the
  parameter \<^verbatim>\<open>u\<close> is missing or empty), it answers with status 404 and an empty body
  and returns: the requests that follow on the connection are not handled, the decorated
  fetch is not called, and the state (the origin's included) stays as it was. This holds
  for the first request of a connection and for one that follows requests served before.
\<close>

theorem serveHttp_missing_parameter:
  "(lacks_target rt requestEvent \<longrightarrow>
      serveHttp rt cachedFetch (requestEvent # rest) w =
        (([\<lparr>out_body = JStr [], out_status = JNum 404, out_headers = JUndefined\<rparr>],
          Inr ()), w)) \<and>
   (lacks_target rt requestEvent \<longrightarrow>
    list_all (\<lambda>e. \<not> lacks_target rt e) before \<longrightarrow>
    serveHttp rt cachedFetch before w = ((outs, Inr ()), w') \<longrightarrow>
      serveHttp rt cachedFetch (before @ requestEvent # rest) w =
        ((outs @ [\<lparr>out_body = JStr [], out_status = JNum 404, out_headers = JUndefined\<rparr>],
          Inr ()), w'))"
proof (intro conjI impI)
  assume "lacks_target rt requestEvent"
  from serveHttp_lacks_target [OF this]
  show "serveHttp rt cachedFetch (requestEvent # rest) w =
        (([\<lparr>out_body = JStr [], out_status = JNum 404, out_headers = JUndefined\<rparr>],
          Inr ()), w)"
    by (simp only: not_found_response_def)
next
  assume l: "lacks_target rt requestEvent"
    and b: "list_all (\<lambda>e. \<not> lacks_target rt e) before"
    and s: "serveHttp rt cachedFetch before w = ((outs, Inr ()), w')"
  from serveHttp_served_before [OF b s l]
  show "serveHttp rt cachedFetch (before @ requestEvent # rest) w =
        ((outs @ [\<lparr>out_body = JStr [], out_status = JNum 404, out_headers = JUndefined\<rparr>],
          Inr ()), w')"
    by (simp only: not_found_response_def)
qed

lemma first_call_result:
  "cachedFetcher_fetch example_runtime hello_transport example_request empty_world =
     (Inr hello_response, after_first_call)"
proof -
  have m: "Fetcher_fetch hello_transport example_request (origin empty_world) =
             (Inr hello_response, Suc 0)"
    by (simp add: fetch_hello empty_world_def)
  have "Cache_set example_runtime example_request hello_response
          ((console_log
              (''Cache miss '' @ http_method example_request @ '' '' @ url example_request)
              empty_world)\<lparr>origin := Suc 0\<rparr>) = (Inr (), after_first_call)"
    by (simp add: Cache_set_written hello_successful example_path_def [symmetric]
          after_first_call_state console_log_def empty_world_def empty_filesystem_def
          example_request_fields)
  with CachableRequest_miss
    [of example_runtime example_request empty_world "Fetcher_fetch hello_transport"
        hello_response "Suc 0", OF empty_world_miss m]
  show ?thesis by (simp add: cachedFetcher_fetch_def)
qed

lemma inbound_examples:
  "lacks_target example_runtime bare_inbound"
  "\<not> lacks_target example_runtime proxied_inbound"
  "URL_new example_runtime (request_url proxied_inbound) =
     Some ''http://localhost:8080/?u=http://example.com/a''"
  "searchParams_get example_runtime ''http://localhost:8080/?u=http://example.com/a'' ''u'' =
     Some ''http://example.com/a''"
  "URL_new example_runtime ''http://example.com/a'' = Some ''http://example.com/a''"
  "fromRequest proxied_inbound ''http://example.com/a'' = Inr example_request"
  "Response_new example_runtime (JStr ''hello'') (JNum 200)
     (JObj [(''content-type'', JStr ''text/plain'')]) = None"
  by code_simp+

theorem serveHttp_missing_parameter_witness:
  "lacks_target example_runtime bare_inbound \<and>
   serveHttp example_runtime (cachedFetcher_fetch example_runtime hello_transport)
     (bare_inbound # [proxied_inbound]) empty_world =
     (([\<lparr>out_body = JStr [], out_status = JNum 404, out_headers = JUndefined\<rparr>], Inr ()),
      empty_world) \<and>
   list_all (\<lambda>e. \<not> lacks_target example_runtime e) [proxied_inbound] \<and>
   serveHttp example_runtime (cachedFetcher_fetch example_runtime hello_transport)
     [proxied_inbound] empty_world =
     (([\<lparr>out_body = JStr ''hello'', out_status = JNum 200,
         out_headers = JObj [(''content-type'', JStr ''text/plain'')]\<rparr>], Inr ()),
      after_first_call) \<and>
   serveHttp example_runtime (cachedFetcher_fetch example_runtime hello_transport)
     ([proxied_inbound] @ bare_inbound # [proxied_inbound]) empty_world =
     (([\<lparr>out_body = JStr ''hello'', out_status = JNum 200,
         out_headers = JObj [(''content-type'', JStr ''text/plain'')]\<rparr>] @
       [\<lparr>out_body = JStr [], out_status = JNum 404, out_headers = JUndefined\<rparr>], Inr ()),
      after_first_call) \<and>
   origin after_first_call = Suc 0"
proof -
  let ?rt = example_runtime
  let ?f = "cachedFetcher_fetch ?rt hello_transport"
  let ?hello = "\<lparr>out_body = JStr ''hello'', out_status = JNum 200,
                  out_headers = JObj [(''content-type'', JStr ''text/plain'')]\<rparr>"
  have served: "list_all (\<lambda>e. \<not> lacks_target ?rt e) [proxied_inbound]"
    by (simp add: inbound_examples)
  have one: "serveHttp ?rt ?f [proxied_inbound] empty_world =
               (([?hello], Inr ()), after_first_call)"
    by (simp add: inbound_examples first_call_result hello_response_def)
  note t = serveHttp_missing_parameter
    [where rt = ?rt and requestEvent = bare_inbound and cachedFetch = ?f
       and rest = "[proxied_inbound]" and w = empty_world and before = "[proxied_inbound]"
       and outs = "[?hello]" and w' = after_first_call]
  from t inbound_examples(1)
  have c1: "serveHttp ?rt ?f (bare_inbound # [proxied_inbound]) empty_world =
     (([\<lparr>out_body = JStr [], out_status = JNum 404, out_headers = JUndefined\<rparr>], Inr ()),
      empty_world)"
    by blast
  from t inbound_examples(1) served one
  have c2: "serveHttp ?rt ?f ([proxied_inbound] @ bare_inbound # [proxied_inbound]) empty_world =
     (([?hello] @
       [\<lparr>out_body = JStr [], out_status = JNum 404, out_headers = JUndefined\<rparr>], Inr ()),
      after_first_call)"
    by blast
  have og: "origin after_first_call = Suc 0"
    by (simp add: after_first_call_state console_log_def)
  from inbound_examples(1) c1 served one c2 og show ?thesis by blast
qed

section \<open>Files that do not hold an entry\<close>

lemma parse_examples:
  "JSON_parse example_runtime ''{}'' = Some (JObj [])"
  "JSON_parse example_runtime ''not json'' = None"
  "JSON_parse example_runtime ''null'' = Some JNull"
  "JSON_parse example_runtime res_without_fields_text = Some (JObj [(''res'', JObj [])])"
  by code_simp+

lemma world_with_file_fields:
  "files (fs (world_with_file s)) (buildFilepath example_runtime example_request) = Some s"
  "buildFilepath example_runtime example_request \<notin> unreadable (fs (world_with_file s))"
  by (simp_all add: world_with_file_def example_path_def empty_world_def empty_filesystem_def)

lemma Cache_get_null_item:
  "buildFilepath rt req \<notin> unreadable (fs w) \<Longrightarrow> files (fs w) (buildFilepath rt req) = Some s \<Longrightarrow>
   JSON_parse rt s = Some JNull \<Longrightarrow> Cache_get rt req w = (Inl TypeError, w)"
  by (simp add: Cache_get_parsed [where s = s and v = JNull])

lemma Cache_get_res:
  assumes "buildFilepath rt req \<notin> unreadable (fs w)"
    and "files (fs w) (buildFilepath rt req) = Some s"
    and "JSON_parse rt s = Some v" and "get_prop v ''res'' = Inr r"
  shows "Cache_get rt req w =
           (case fromJSON r of Inl e \<Rightarrow> (Inr None, w) | Inr d \<Rightarrow> (Inr (Some d), w))"
  using assms by (simp add: Cache_get_parsed [where s = s and v = v])

text \<open>
  Claim C2. What \<open>Cache_get\<close> does with the file at the request's path:
  \<^item> a read that fails for another reason than absence is raised to the caller;
  \<^item> a missing file gives absent;
  \<^item> a file whose parsed content has no \<^verbatim>\<open>res\<close> property, or \<^verbatim>\<open>null\<close> there,
    gives absent (\<open>fromJSON\<close> raises \<open>Deserialize\<close>, which the \<^verbatim>\<open>catch\<close> clause
    absorbs);
  \<^item> a file that \<^verbatim>\<open>JSON.parse\<close> rejects does not give absent: the SyntaxError is
    neither \<open>NotFound\<close> nor \<open>Deserialize\<close>, and line 236 throws it again. So does the
    TypeError of reading \<^verbatim>\<open>res\<close> when the file holds \<^verbatim>\<open>null\<close>.
  The last point is where the program departs from the claim, which says that a file of
  bytes that are not JSON makes the next \<open>Cache_get\<close> report absent.
\<close>

theorem Cache_get_outcomes:
  "(buildFilepath rt req \<in> unreadable (fs w) \<longrightarrow> Cache_get rt req w = (Inl IOFault, w)) \<and>
   (buildFilepath rt req \<notin> unreadable (fs w) \<longrightarrow>
      (files (fs w) (buildFilepath rt req) = None \<longrightarrow> Cache_get rt req w = (Inr None, w)) \<and>
      (\<forall>s. files (fs w) (buildFilepath rt req) = Some s \<longrightarrow>
         (JSON_parse rt s = None \<longrightarrow> Cache_get rt req w = (Inl SyntaxError, w)) \<and>
         (JSON_parse rt s = Some JNull \<longrightarrow> Cache_get rt req w = (Inl TypeError, w)) \<and>
         (\<forall>v. JSON_parse rt s = Some v \<longrightarrow>
            (get_prop v ''res'' = Inr JUndefined \<or> get_prop v ''res'' = Inr JNull) \<longrightarrow>
            Cache_get rt req w = (Inr None, w))))"
proof (intro conjI impI allI)
  assume "buildFilepath rt req \<in> unreadable (fs w)"
  then show "Cache_get rt req w = (Inl IOFault, w)" by (rule Cache_get_fault)
next
  assume "buildFilepath rt req \<notin> unreadable (fs w)"
    and "files (fs w) (buildFilepath rt req) = None"
  then show "Cache_get rt req w = (Inr None, w)" by (rule Cache_get_missing)
next
  fix s
  assume "buildFilepath rt req \<notin> unreadable (fs w)"
    and "files (fs w) (buildFilepath rt req) = Some s" and "JSON_parse rt s = None"
  then show "Cache_get rt req w = (Inl SyntaxError, w)" by (rule Cache_get_unparsable)
next
  fix s
  assume "buildFilepath rt req \<notin> unreadable (fs w)"
    and "files (fs w) (buildFilepath rt req) = Some s" and "JSON_parse rt s = Some JNull"
  then show "Cache_get rt req w = (Inl TypeError, w)" by (rule Cache_get_null_item)
next
  fix s v
  assume a: "buildFilepath rt req \<notin> unreadable (fs w)"
    "files (fs w) (buildFilepath rt req) = Some s" "JSON_parse rt s = Some v"
    and r: "get_prop v ''res'' = Inr JUndefined \<or> get_prop v ''res'' = Inr JNull"
  from r show "Cache_get rt req w = (Inr None, w)"
  proof
    assume "get_prop v ''res'' = Inr JUndefined"
    from Cache_get_res [OF a this] show ?thesis by (simp add: fromJSON_null)
  next
    assume "get_prop v ''res'' = Inr JNull"
    from Cache_get_res [OF a this] show ?thesis by (simp add: fromJSON_null)
  qed
qed

theorem Cache_get_outcomes_witness:
  "buildFilepath example_runtime example_request \<notin> unreadable (fs (world_with_file ''not json'')) \<and>
   files (fs (world_with_file ''not json'')) (buildFilepath example_runtime example_request) =
     Some ''not json'' \<and>
   JSON_parse example_runtime ''not json'' = None \<and>
   Cache_get example_runtime example_request (world_with_file ''not json'') =
     (Inl SyntaxError, world_with_file ''not json'') \<and>
   files (fs empty_world) (buildFilepath example_runtime example_request) = None \<and>
   Cache_get example_runtime example_request empty_world = (Inr None, empty_world) \<and>
   JSON_parse example_runtime ''null'' = Some JNull \<and>
   Cache_get example_runtime example_request (world_with_file ''null'') =
     (Inl TypeError, world_with_file ''null'') \<and>
   JSON_parse example_runtime ''{}'' = Some (JObj []) \<and>
   get_prop (JObj []) ''res'' = Inr JUndefined \<and>
   Cache_get example_runtime example_request (world_with_file ''{}'') =
     (Inr None, world_with_file ''{}'')"
proof -
  let ?rt = example_runtime
  let ?p = "buildFilepath ?rt example_request"
  have e: "?p \<notin> unreadable (fs empty_world)" "files (fs empty_world) ?p = None"
    by (simp_all add: empty_world_def empty_filesystem_def)
  have g: "get_prop (JObj []) ''res'' = Inr JUndefined" by simp
  from Cache_get_outcomes [of ?rt example_request "world_with_file ''not json''"]
    world_with_file_fields [of "''not json''"] parse_examples(2)
  have c1: "Cache_get ?rt example_request (world_with_file ''not json'') =
     (Inl SyntaxError, world_with_file ''not json'')"
    by blast
  from Cache_get_outcomes [of ?rt example_request empty_world] e
  have c2: "Cache_get ?rt example_request empty_world = (Inr None, empty_world)"
    by blast
  from Cache_get_outcomes [of ?rt example_request "world_with_file ''null''"]
    world_with_file_fields [of "''null''"] parse_examples(3)
  have c3: "Cache_get ?rt example_request (world_with_file ''null'') =
     (Inl TypeError, world_with_file ''null'')"
    by blast
  from Cache_get_outcomes [of ?rt example_request "world_with_file ''{}''"]
    world_with_file_fields [of "''{}''"] parse_examples(1) g
  have c4: "Cache_get ?rt example_request (world_with_file ''{}'') =
     (Inr None, world_with_file ''{}'')"
    by blast
  from world_with_file_fields [of "''not json''"] parse_examples(1,2,3) c1 e(2) c2 c3 g c4
  show ?thesis by blast
qed

section \<open>Deserialising validates nothing\<close>

text \<open>
  Claim C9, as the program has it. \<open>fromJSON\<close> validates no structure: on every value but
  \<^verbatim>\<open>undefined\<close> and \<^verbatim>\<open>null\<close> the three property reads succeed and it returns a
  descriptor of whatever they gave (\<^verbatim>\<open>undefined\<close> for a field that is missing), never
  \<open>Deserialize\<close>; it raises \<open>Deserialize\<close> on \<^verbatim>\<open>undefined\<close> and \<^verbatim>\<open>null\<close>, and
  only there. So for a readable file whose content parses to a value other than
  \<^verbatim>\<open>null\<close> (and \<^verbatim>\<open>undefined\<close>, which \<^verbatim>\<open>JSON.parse\<close> never returns), the
  property \<^verbatim>\<open>res\<close> of that value can be read, and: when \<^verbatim>\<open>res\<close> is neither missing
  nor \<^verbatim>\<open>null\<close>, \<open>Cache_get\<close> returns a descriptor, whatever \<^verbatim>\<open>res\<close> holds; when
  \<^verbatim>\<open>res\<close> is missing or \<^verbatim>\<open>null\<close>, \<open>Cache_get\<close> reports absent.
\<close>

theorem fromJSON_validates_nothing:
  "(json \<noteq> JUndefined \<longrightarrow> json \<noteq> JNull \<longrightarrow>
      (\<exists>st h d. get_prop json ''status'' = Inr st \<and> get_prop json ''headers'' = Inr h \<and>
         get_prop json ''data'' = Inr d \<and>
         fromJSON json = Inr \<lparr>status = st, rheaders = h, data = d\<rparr>)) \<and>
   (fromJSON json = Inl e \<longrightarrow> e = Deserialize \<and> (json = JUndefined \<or> json = JNull)) \<and>
   (buildFilepath rt req \<notin> unreadable (fs w) \<longrightarrow>
    files (fs w) (buildFilepath rt req) = Some s \<longrightarrow>
    JSON_parse rt s = Some v \<longrightarrow> v \<noteq> JNull \<longrightarrow> v \<noteq> JUndefined \<longrightarrow>
      (\<exists>r. get_prop v ''res'' = Inr r \<and>
         (r \<noteq> JUndefined \<longrightarrow> r \<noteq> JNull \<longrightarrow>
            (\<exists>d. fromJSON r = Inr d \<and> Cache_get rt req w = (Inr (Some d), w))) \<and>
         (r = JUndefined \<or> r = JNull \<longrightarrow> Cache_get rt req w = (Inr None, w))))"
proof (intro conjI impI)
  assume j: "json \<noteq> JUndefined" "json \<noteq> JNull"
  then obtain st h d where
    "get_prop json ''status'' = Inr st" "get_prop json ''headers'' = Inr h"
    "get_prop json ''data'' = Inr d"
    using get_prop_defined by metis
  then show "\<exists>st h d. get_prop json ''status'' = Inr st \<and> get_prop json ''headers'' = Inr h \<and>
         get_prop json ''data'' = Inr d \<and>
         fromJSON json = Inr \<lparr>status = st, rheaders = h, data = d\<rparr>"
    by (simp add: fromJSON_def)
next
  assume f: "fromJSON json = Inl e"
  from fromJSON_error [OF f] show "e = Deserialize" by simp
  from fromJSON_error [OF f] show "json = JUndefined \<or> json = JNull" by simp
next
  assume a: "buildFilepath rt req \<notin> unreadable (fs w)"
    "files (fs w) (buildFilepath rt req) = Some s" "JSON_parse rt s = Some v"
    and v: "v \<noteq> JNull" "v \<noteq> JUndefined"
  from get_prop_defined [OF v(2) v(1)] obtain r where g: "get_prop v ''res'' = Inr r"
    by blast
  have hit: "\<exists>d. fromJSON r = Inr d \<and> Cache_get rt req w = (Inr (Some d), w)"
    if r: "r \<noteq> JUndefined" "r \<noteq> JNull"
  proof -
    from fromJSON_defined [OF r] obtain d where "fromJSON r = Inr d" by blast
    with Cache_get_res [OF a g] show ?thesis by simp
  qed
  have miss: "Cache_get rt req w = (Inr None, w)" if r: "r = JUndefined \<or> r = JNull"
  proof -
    from r have "fromJSON r = Inl Deserialize" by (auto simp: fromJSON_null)
    with Cache_get_res [OF a g] show ?thesis by simp
  qed
  from g hit miss
  show "\<exists>r. get_prop v ''res'' = Inr r \<and>
         (r \<noteq> JUndefined \<longrightarrow> r \<noteq> JNull \<longrightarrow>
            (\<exists>d. fromJSON r = Inr d \<and> Cache_get rt req w = (Inr (Some d), w))) \<and>
         (r = JUndefined \<or> r = JNull \<longrightarrow> Cache_get rt req w = (Inr None, w))"
    by blast
qed

theorem fromJSON_validates_nothing_witness:
  "JObj [] \<noteq> JUndefined \<and> JObj [] \<noteq> JNull \<and> fromJSON (JObj []) = Inr undefined_descriptor \<and>
   fromJSON JNull = Inl Deserialize \<and>
   buildFilepath example_runtime example_request \<notin>
     unreadable (fs (world_with_file res_without_fields_text)) \<and>
   files (fs (world_with_file res_without_fields_text))
     (buildFilepath example_runtime example_request) = Some res_without_fields_text \<and>
   JSON_parse example_runtime res_without_fields_text = Some (JObj [(''res'', JObj [])]) \<and>
   JObj [(''res'', JObj [])] \<noteq> JNull \<and> JObj [(''res'', JObj [])] \<noteq> JUndefined \<and>
   get_prop (JObj [(''res'', JObj [])]) ''res'' = Inr (JObj []) \<and>
   Cache_get example_runtime example_request (world_with_file res_without_fields_text) =
     (Inr (Some undefined_descriptor), world_with_file res_without_fields_text) \<and>
   JSON_parse example_runtime ''{}'' = Some (JObj []) \<and>
   get_prop (JObj []) ''res'' = Inr JUndefined \<and>
   Cache_get example_runtime example_request (world_with_file ''{}'') =
     (Inr None, world_with_file ''{}'')"
proof -
  let ?rt = example_runtime
  have u: "fromJSON (JObj []) = Inr undefined_descriptor"
    using fromJSON_validates_nothing
      [where json = "JObj []" and e = Deserialize and rt = ?rt and req = example_request
         and w = "world_with_file ''{}''" and s = "''{}''" and v = "JObj []"]
    by (simp add: undefined_descriptor_def)
  have n: "fromJSON JNull = Inl Deserialize" by (rule fromJSON_null)
  have g: "get_prop (JObj [(''res'', JObj [])]) ''res'' = Inr (JObj [])"
    "get_prop (JObj []) ''res'' = Inr JUndefined"
    by simp_all
  from fromJSON_validates_nothing
    [where rt = ?rt and req = example_request and w = "world_with_file res_without_fields_text"
       and s = res_without_fields_text and v = "JObj [(''res'', JObj [])]"]
    world_with_file_fields [of res_without_fields_text] parse_examples(4) g(1) u
  have c1: "Cache_get ?rt example_request (world_with_file res_without_fields_text) =
     (Inr (Some undefined_descriptor), world_with_file res_without_fields_text)"
    by auto
  from fromJSON_validates_nothing
    [where rt = ?rt and req = example_request and w = "world_with_file ''{}''"
       and s = "''{}''" and v = "JObj []"]
    world_with_file_fields [of "''{}''"] parse_examples(1) g(2)
  have c2: "Cache_get ?rt example_request (world_with_file ''{}'') =
     (Inr None, world_with_file ''{}'')"
    by auto
  from u n world_with_file_fields [of res_without_fields_text] parse_examples(4,1) g c1 c2
  show ?thesis by simp
qed

text \<open>
  The claim as it was stated fails: a cache file holding \<^verbatim>\<open>{}\<close> is well-formed JSON
  with no \<^verbatim>\<open>res\<close> property, and \<open>Cache_get\<close> does not treat it as a hit.
\<close>

theorem well_formed_json_is_not_always_a_hit:
  "JSON_parse example_runtime ''{}'' = Some (JObj []) \<and>
   files (fs (world_with_file ''{}'')) (buildFilepath example_runtime example_request) =
     Some ''{}'' \<and>
   fst (Cache_get example_runtime example_request (world_with_file ''{}'')) = Inr None \<and>
   \<not> (\<exists>d. fst (Cache_get example_runtime example_request (world_with_file ''{}'')) =
             Inr (Some d))"
proof -
  have g: "get_prop (JObj []) ''res'' = Inr JUndefined" by simp
  have "Cache_get example_runtime example_request (world_with_file ''{}'') =
          (Inr None, world_with_file ''{}'')"
    using Cache_get_res
      [OF world_with_file_fields(2) [of "''{}''"] world_with_file_fields(1) [of "''{}''"]
          parse_examples(1) g]
    by (simp add: fromJSON_null)
  with parse_examples(1) world_with_file_fields(1) [of "''{}''"] show ?thesis by simp
qed

end
